theory Spec2Isabelle
  imports Complex_Main "HOL-Library.AList"
begin

section \<open>JavaScript values and the browser substrate\<close>

text \<open>
  The storage service keeps two records in the browser's \<open>localStorage\<close>, each as one
  JSON text. Values that pass through \<open>JSON.parse\<close> and \<open>JSON.stringify\<close> are
  modelled by the datatype \<open>json\<close>: an object is the list of its own properties in
  insertion order, numbers are the integers (scores, totals, answer indices).
  \<open>undefined\<close> is not a JSON value; a member read that yields \<open>undefined\<close> is
  \<open>None\<close>.

  Property names are the ones the program builds (\<open>completedChapters\<close>,
  \<open>quizScores\<close>, \<open>12-accounts-ch1\<close>, \<open>quiz_12_accounts_ch1\<close>, ...): never an
  array index and never a name inherited from a prototype, so a member read on an array,
  a string, a number or a boolean yields \<open>undefined\<close>. For an object the names the
  model of member access does not cover are those of \<open>Object.prototype\<close>, listed
  below: a read of such a name finds the inherited member, and an assignment to
  \<open>__proto__\<close> sets the prototype instead of a property. A statement about every key
  carries \<open>own_name\<close> as a hypothesis.
\<close>

datatype json =
    JNull
  | JBool bool
  | JNum int
  | JStr string
  | JArr "json list"
  | JObj "(string \<times> json) list"

datatype js_error = SyntaxError | TypeError

definition Object_prototype_names :: "string list" where
  "Object_prototype_names =
     [''__proto__'', ''constructor'', ''hasOwnProperty'', ''isPrototypeOf'',
      ''propertyIsEnumerable'', ''toLocaleString'', ''toString'', ''valueOf'',
      ''__defineGetter__'', ''__defineSetter__'', ''__lookupGetter__'', ''__lookupSetter__'']"

definition own_name :: "string \<Rightarrow> bool" where
  "own_name key \<longleftrightarrow> key \<notin> set Object_prototype_names"

text \<open>
  \<open>JSON.parse\<close> and \<open>JSON.stringify\<close> are built into the platform. The model takes
  them as a parameter: \<open>JSON_parse\<close> returns \<open>None\<close> where the built-in throws a
  \<open>SyntaxError\<close>. \<open>localStorage\<close> maps an item name to its text; \<open>getItem\<close> of a
  missing item is \<open>null\<close>, here \<open>None\<close>.

  \<open>setItem\<close> throws when the quota of the storage is exceeded. How much a storage
  holds is the platform's affair: a \<open>quota\<close> says, for a storage, an item name and a
  text, whether \<open>setItem\<close> of that text succeeds there. The cache write, which
  expects the failure and catches it, is modelled with the quota; the progress record is
  a few short entries, and its write is taken to succeed.
\<close>

record json_codec =
  JSON_parse :: "string \<Rightarrow> json option"
  JSON_stringify :: "json \<Rightarrow> string"

type_synonym localStorage = "string \<Rightarrow> string option"

type_synonym quota = "localStorage \<Rightarrow> string \<Rightarrow> string \<Rightarrow> bool"

definition accepts_all :: quota where
  "accepts_all ls name t = True"

text \<open>
  What the built-ins promise for a value \<open>v\<close>: its text is not empty and parses back to
  \<open>v\<close>. The theorems ask this only of the values a run writes.
\<close>

definition roundtrips :: "json_codec \<Rightarrow> json \<Rightarrow> bool" where
  "roundtrips cd v \<longleftrightarrow>
     JSON_stringify cd v \<noteq> [] \<and> JSON_parse cd (JSON_stringify cd v) = Some v"

text \<open>Truthiness of a value, as \<open>||\<close> and \<open>if\<close> test it.\<close>

fun truthy :: "json \<Rightarrow> bool" where
  "truthy JNull = False"
| "truthy (JBool b) = b"
| "truthy (JNum n) = (n \<noteq> 0)"
| "truthy (JStr s) = (s \<noteq> [])"
| "truthy (JArr xs) = True"
| "truthy (JObj kvs) = True"

text \<open>\<open>localStorage.getItem(name) || d\<close>: a missing item and the empty text are falsy.\<close>

definition getItem_or :: "localStorage \<Rightarrow> string \<Rightarrow> string \<Rightarrow> string" where
  "getItem_or ls name d =
     (case ls name of None \<Rightarrow> d | Some s \<Rightarrow> if s = [] then d else s)"

text \<open>
  \<open>o[key]\<close>: reading a member of \<open>null\<close> throws a \<open>TypeError\<close>; an object yields its
  own property or \<open>undefined\<close>; every other value yields \<open>undefined\<close>.
\<close>

fun read_member :: "json \<Rightarrow> string \<Rightarrow> js_error + json option" where
  "read_member JNull key = Inl TypeError"
| "read_member (JObj kvs) key = Inr (map_of kvs key)"
| "read_member v key = Inr None"

text \<open>
  \<open>o[key] = data\<close> in module (strict) code, as the following \<open>JSON.stringify(o)\<close> sees
  it: an object gets the property (overwritten in place, or appended); a property set on
  an array under a name that is no index is not part of its JSON text; \<open>null\<close> and the
  primitive values throw a \<open>TypeError\<close>.
\<close>

fun assign_member :: "json \<Rightarrow> string \<Rightarrow> json \<Rightarrow> js_error + json" where
  "assign_member (JObj kvs) key data = Inr (JObj (AList.update key data kvs))"
| "assign_member (JArr xs) key data = Inr (JArr xs)"
| "assign_member v key data = Inl TypeError"

text \<open>\<open>s.includes(k)\<close> on a string: \<open>k\<close> occurs in \<open>s\<close> as a contiguous piece.\<close>

fun string_includes :: "string \<Rightarrow> string \<Rightarrow> bool" where
  "string_includes [] k = (k = [])"
| "string_includes (c # cs) k = (take (length k) (c # cs) = k \<or> string_includes cs k)"

text \<open>\<open>xs[i]\<close> on an array: \<open>undefined\<close> outside its range.\<close>

definition at_index :: "'a list \<Rightarrow> int \<Rightarrow> 'a option" where
  "at_index xs i = (if 0 \<le> i \<and> i < int (length xs) then Some (xs ! nat i) else None)"

text \<open>
  \<open>s.toLowerCase()\<close>, on the letters \<open>A\<close> to \<open>Z\<close>. (No character outside ASCII has a
  lower case that is a letter of \<open>introduction\<close>, the only text compared with.)
\<close>

definition lower_char :: "char \<Rightarrow> char" where
  "lower_char c =
     (case map_of (zip ''ABCDEFGHIJKLMNOPQRSTUVWXYZ'' ''abcdefghijklmnopqrstuvwxyz'') c of
        None \<Rightarrow> c
      | Some l \<Rightarrow> l)"

definition toLowerCase :: "string \<Rightarrow> string" where
  "toLowerCase s = map lower_char s"

text \<open>Decimal text of an integer, as a template literal prints it.\<close>

definition digit_char :: "nat \<Rightarrow> char" where
  "digit_char d = ''0123456789'' ! d"

fun string_of_nat :: "nat \<Rightarrow> string" where
  "string_of_nat n =
     (if n < 10 then [digit_char n]
      else string_of_nat (n div 10) @ [digit_char (n mod 10)])"

declare string_of_nat.simps [simp del]

definition string_of_int :: "int \<Rightarrow> string" where
  "string_of_int i = (if i < 0 then ''-'' @ string_of_nat (nat (- i)) else string_of_nat (nat i))"

section \<open>The storage service (\<open>services/storage\<close>)\<close>

definition STORAGE_KEY :: string where
  "STORAGE_KEY = ''gseb_commerce_app_progress''"

definition CONTENT_CACHE_KEY :: string where
  "CONTENT_CACHE_KEY = ''gseb_content_cache''"

subsection \<open>Progress\<close>

text \<open>The object literal \<open>{ completedChapters: [], quizScores: {} }\<close>.\<close>

definition empty_progress :: json where
  "empty_progress = JObj [(''completedChapters'', JArr []), (''quizScores'', JObj [])]"

text \<open>The object literal \<open>{ score, total, date }\<close> of a \<open>QuizResult\<close>.\<close>

definition QuizResult :: "int \<Rightarrow> int \<Rightarrow> string \<Rightarrow> json" where
  "QuizResult s t d = JObj [(''score'', JNum s), (''total'', JNum t), (''date'', JStr d)]"

text \<open>The template literal \<open>`${classId}-${subjectId}-${chapterId}`\<close>.\<close>

definition chapter_key :: "nat \<Rightarrow> string \<Rightarrow> string \<Rightarrow> string" where
  "chapter_key classId subjectId chapterId =
     string_of_nat classId @ ''-'' @ subjectId @ ''-'' @ chapterId"

definition saveProgress :: "json_codec \<Rightarrow> json \<Rightarrow> localStorage \<Rightarrow> localStorage" where
  "saveProgress cd progress ls = ls(STORAGE_KEY \<mapsto> JSON_stringify cd progress)"

text \<open>
  \<open>loadProgress\<close> has no \<open>try\<close>: a \<open>SyntaxError\<close> of \<open>JSON.parse\<close> reaches the caller.
  \<open>null\<close> is \<open>JNull\<close>.
\<close>

definition loadProgress :: "json_codec \<Rightarrow> localStorage \<Rightarrow> js_error + json" where
  "loadProgress cd ls =
     (case ls STORAGE_KEY of
        None \<Rightarrow> Inr JNull
      | Some data \<Rightarrow>
          if data = [] then Inr JNull
          else (case JSON_parse cd data of
                  None \<Rightarrow> Inl SyntaxError
                | Some v \<Rightarrow> Inr v))"

text \<open>\<open>loadProgress() || { completedChapters: [], quizScores: {} }\<close>.\<close>

definition current_progress :: "json_codec \<Rightarrow> localStorage \<Rightarrow> js_error + json" where
  "current_progress cd ls =
     (case loadProgress cd ls of
        Inl e \<Rightarrow> Inl e
      | Inr p \<Rightarrow> Inr (if truthy p then p else empty_progress))"

text \<open>
  \<open>markChapterComplete\<close>: \<open>current.completedChapters.includes(key)\<close>, then \<open>push\<close> and
  \<open>saveProgress\<close> only when the key is absent. A string also has \<open>includes\<close> (but no
  \<open>push\<close>); on every other value the call of \<open>includes\<close> throws.
\<close>

definition markChapterComplete ::
  "json_codec \<Rightarrow> nat \<Rightarrow> string \<Rightarrow> string \<Rightarrow> localStorage \<Rightarrow> js_error + localStorage" where
  "markChapterComplete cd classId subjectId chapterId ls =
     (case current_progress cd ls of
        Inl e \<Rightarrow> Inl e
      | Inr current \<Rightarrow>
          (let key = chapter_key classId subjectId chapterId in
           case read_member current ''completedChapters'' of
             Inl e \<Rightarrow> Inl e
           | Inr (Some (JArr xs)) \<Rightarrow>
               if JStr key \<in> set xs then Inr ls
               else (case assign_member current ''completedChapters'' (JArr (xs @ [JStr key])) of
                       Inl e \<Rightarrow> Inl e
                     | Inr current' \<Rightarrow> Inr (saveProgress cd current' ls))
           | Inr (Some (JStr s)) \<Rightarrow>
               if string_includes s key then Inr ls else Inl TypeError
           | Inr _ \<Rightarrow> Inl TypeError))"

text \<open>
  \<open>saveQuizScore\<close>: \<open>current.quizScores[key] = result\<close> unconditionally, then
  \<open>saveProgress\<close>.
\<close>

definition saveQuizScore ::
  "json_codec \<Rightarrow> nat \<Rightarrow> string \<Rightarrow> string \<Rightarrow> json \<Rightarrow> localStorage \<Rightarrow> js_error + localStorage" where
  "saveQuizScore cd classId subjectId chapterId result ls =
     (case current_progress cd ls of
        Inl e \<Rightarrow> Inl e
      | Inr current \<Rightarrow>
          (let key = chapter_key classId subjectId chapterId in
           case read_member current ''quizScores'' of
             Inl e \<Rightarrow> Inl e
           | Inr None \<Rightarrow> Inl TypeError
           | Inr (Some scores) \<Rightarrow>
               (case assign_member scores key result of
                  Inl e \<Rightarrow> Inl e
                | Inr scores' \<Rightarrow>
                    (case assign_member current ''quizScores'' scores' of
                       Inl e \<Rightarrow> Inl e
                     | Inr current' \<Rightarrow> Inr (saveProgress cd current' ls)))))"

text \<open>
  What a reader of the progress record sees (\<open>userProgress.completedChapters\<close>,
  \<open>userProgress.quizScores\<close>), and \<open>markChapterComplete\<close> called \<open>n\<close> times in a row.
\<close>

definition completedChapters_of :: "json_codec \<Rightarrow> localStorage \<Rightarrow> json list option" where
  "completedChapters_of cd ls =
     (case current_progress cd ls of
        Inr (JObj kvs) \<Rightarrow>
          (case map_of kvs ''completedChapters'' of Some (JArr xs) \<Rightarrow> Some xs | _ \<Rightarrow> None)
      | _ \<Rightarrow> None)"

definition quizScores_of :: "json_codec \<Rightarrow> localStorage \<Rightarrow> (string \<times> json) list option" where
  "quizScores_of cd ls =
     (case current_progress cd ls of
        Inr (JObj kvs) \<Rightarrow>
          (case map_of kvs ''quizScores'' of Some (JObj scores) \<Rightarrow> Some scores | _ \<Rightarrow> None)
      | _ \<Rightarrow> None)"

fun markChapterComplete_times ::
  "nat \<Rightarrow> json_codec \<Rightarrow> nat \<Rightarrow> string \<Rightarrow> string \<Rightarrow> localStorage \<Rightarrow> js_error + localStorage" where
  "markChapterComplete_times 0 cd classId subjectId chapterId ls = Inr ls"
| "markChapterComplete_times (Suc n) cd classId subjectId chapterId ls =
     (case markChapterComplete cd classId subjectId chapterId ls of
        Inl e \<Rightarrow> Inl e
      | Inr ls' \<Rightarrow> markChapterComplete_times n cd classId subjectId chapterId ls')"

subsection \<open>Content cache\<close>

text \<open>
  \<open>saveCachedContent\<close>: everything runs inside \<open>try\<close>, and the \<open>catch\<close> only logs, so
  a failed parse, assignment or \<open>setItem\<close> leaves the storage as it was at that point:
  unchanged, or, when the \<open>setItem\<close> after the \<open>removeItem\<close> of an overflow fails,
  without the cache item. \<open>jsonString.length\<close> is the length of the text.
\<close>

definition saveCachedContent_quota ::
  "quota \<Rightarrow> json_codec \<Rightarrow> string \<Rightarrow> json \<Rightarrow> localStorage \<Rightarrow> localStorage" where
  "saveCachedContent_quota accepts cd key data ls =
     (case JSON_parse cd (getItem_or ls CONTENT_CACHE_KEY ''{}'') of
        None \<Rightarrow> ls
      | Some currentCache \<Rightarrow>
          (case assign_member currentCache key data of
             Inl e \<Rightarrow> ls
           | Inr currentCache' \<Rightarrow>
               (let jsonString = JSON_stringify cd currentCache' in
                if length jsonString > 4500000
                then (let removed = ls(CONTENT_CACHE_KEY := None);
                          single = JSON_stringify cd (JObj [(key, data)])
                      in if accepts removed CONTENT_CACHE_KEY single
                         then removed(CONTENT_CACHE_KEY \<mapsto> single)
                         else removed)
                else if accepts ls CONTENT_CACHE_KEY jsonString
                     then ls(CONTENT_CACHE_KEY \<mapsto> jsonString)
                     else ls)))"

text \<open>
  The views are modelled on a storage that accepts every write; \<open>saveCachedContent\<close>
  without a quota is the function there.
\<close>

definition saveCachedContent :: "json_codec \<Rightarrow> string \<Rightarrow> json \<Rightarrow> localStorage \<Rightarrow> localStorage" where
  "saveCachedContent cd key data ls = saveCachedContent_quota accepts_all cd key data ls"

text \<open>
  \<open>getCachedContent\<close>: \<open>currentCache[key] || null\<close> inside \<open>try\<close>; the \<open>catch\<close>
  returns \<open>null\<close>.
\<close>

definition getCachedContent :: "json_codec \<Rightarrow> string \<Rightarrow> localStorage \<Rightarrow> json" where
  "getCachedContent cd key ls =
     (case JSON_parse cd (getItem_or ls CONTENT_CACHE_KEY ''{}'') of
        None \<Rightarrow> JNull
      | Some currentCache \<Rightarrow>
          (case read_member currentCache key of
             Inl e \<Rightarrow> JNull
           | Inr None \<Rightarrow> JNull
           | Inr (Some v) \<Rightarrow> if truthy v then v else JNull))"

section \<open>The content provider (\<open>services/geminiService\<close>)\<close>

text \<open>
  The provider is external. A call of \<open>ai.models.generateContent\<close> is a request, and
  the client \<open>ai\<close> (a parameter of the model) says how the awaited call ends: it is
  rejected, or fulfilled with a response. Of the response the services read \<open>text\<close>
  (possibly \<open>undefined\<close>) and the grounding chunks of the first candidate (possibly
  none), each with or without a \<open>web\<close> part.
\<close>

record Source =
  title :: string
  uri :: string

record GenerateContentResponse =
  response_text :: "string option"
  groundingChunks :: "Source option list option"

datatype 'a awaited = Rejected | Fulfilled 'a

datatype request =
    SyllabusRequest nat string string
  | ExplanationRequest nat string string "string option"
  | QuizRequest nat string string
  | GlossaryRequest nat string

type_synonym client = "request \<Rightarrow> GenerateContentResponse awaited"

record ExplanationResult =
  content :: string
  sources :: "Source list"

text \<open>\<open>getChapterSyllabus\<close>: two fallbacks, and \<open>JSON.parse(text)\<close> returned as it is.\<close>

definition getChapterSyllabus :: "json_codec \<Rightarrow> client \<Rightarrow> nat \<Rightarrow> string \<Rightarrow> string \<Rightarrow> json" where
  "getChapterSyllabus cd ai classLevel subjectName chapterTitle =
     (case ai (SyllabusRequest classLevel subjectName chapterTitle) of
        Rejected \<Rightarrow> JArr [JStr ''Overview'', JStr ''Main Concepts'', JStr ''Conclusion'']
      | Fulfilled response \<Rightarrow>
          (case response_text response of
             None \<Rightarrow> JArr [JStr ''Introduction'', JStr ''Key Concepts'', JStr ''Summary'']
           | Some t \<Rightarrow>
               if t = [] then JArr [JStr ''Introduction'', JStr ''Key Concepts'', JStr ''Summary'']
               else (case JSON_parse cd t of
                       None \<Rightarrow> JArr [JStr ''Overview'', JStr ''Main Concepts'', JStr ''Conclusion'']
                     | Some v \<Rightarrow> v)))"

text \<open>\<open>a.findIndex(p)\<close>: the first index whose element satisfies \<open>p\<close>, or \<open>-1\<close>.\<close>

fun findIndex :: "('a \<Rightarrow> bool) \<Rightarrow> 'a list \<Rightarrow> int" where
  "findIndex p [] = - 1"
| "findIndex p (x # xs) =
     (if p x then 0 else (let i = findIndex p xs in if i < 0 then - 1 else i + 1))"

text \<open>
  \<open>sources.filter((v, i, a) => a.findIndex(t => t.uri === v.uri) === i)\<close>: the first
  source of every \<open>uri\<close>.
\<close>

definition uniqueSources :: "Source list \<Rightarrow> Source list" where
  "uniqueSources a =
     map snd (filter (\<lambda>(i, v). findIndex (\<lambda>t. uri t = uri v) a = int i) (enumerate 0 a))"

definition explanation_error :: ExplanationResult where
  "explanation_error =
     \<lparr>content = ''## Error'' @ [CHR 0x0A] @
        ''Could not generate content at this time. Please check your connection and try again.'',
      sources = []\<rparr>"

definition generateTopicExplanation ::
  "client \<Rightarrow> nat \<Rightarrow> string \<Rightarrow> string \<Rightarrow> string option \<Rightarrow> ExplanationResult" where
  "generateTopicExplanation ai classLevel subjectName chapterTitle topic =
     (case ai (ExplanationRequest classLevel subjectName chapterTitle topic) of
        Rejected \<Rightarrow> explanation_error
      | Fulfilled response \<Rightarrow>
          \<lparr>content =
             (case response_text response of
                None \<Rightarrow> ''Sorry, content generation failed.''
              | Some t \<Rightarrow> if t = [] then ''Sorry, content generation failed.'' else t),
           sources =
             uniqueSources
               (case groundingChunks response of
                  None \<Rightarrow> []
                | Some chunks \<Rightarrow> List.map_filter (\<lambda>chunk. chunk) chunks)\<rparr>)"

definition generateChapterQuiz :: "json_codec \<Rightarrow> client \<Rightarrow> nat \<Rightarrow> string \<Rightarrow> string \<Rightarrow> json" where
  "generateChapterQuiz cd ai classLevel subjectName chapterTitle =
     (case ai (QuizRequest classLevel subjectName chapterTitle) of
        Rejected \<Rightarrow> JArr []
      | Fulfilled response \<Rightarrow>
          (case response_text response of
             None \<Rightarrow> JArr []
           | Some t \<Rightarrow>
               if t = [] then JArr []
               else (case JSON_parse cd t of None \<Rightarrow> JArr [] | Some v \<Rightarrow> v)))"

definition generateSubjectGlossary :: "json_codec \<Rightarrow> client \<Rightarrow> nat \<Rightarrow> string \<Rightarrow> json" where
  "generateSubjectGlossary cd ai classLevel subjectName =
     (case ai (GlossaryRequest classLevel subjectName) of
        Rejected \<Rightarrow> JArr []
      | Fulfilled response \<Rightarrow>
          (case response_text response of
             None \<Rightarrow> JArr []
           | Some t \<Rightarrow>
               if t = [] then JArr []
               else (case JSON_parse cd t of None \<Rightarrow> JArr [] | Some v \<Rightarrow> v)))"

section \<open>The views\<close>

text \<open>
  A view is a React component: its state is a record of its \<open>useState\<close> cells, and an
  event handler or effect is a function from the state (and the storage) before to the
  state (and the storage) after, taken when its promises have settled. The tables
  \<open>SUBJECTS\<close> and \<open>CHAPTERS\<close> are not part of the sources: the views get the \<open>subject\<close>
  and \<open>chapter\<close> they look up there as parameters (\<open>None\<close> when the lookup finds
  nothing), with the two fields the logic reads.

  A cache read and a provider result are annotated with the type of the value expected
  (\<open>getCachedContent<string[]>\<close>, \<open>Promise<QuizQuestion[]>\<close>). The component state is
  typed by these annotations; a truthy value of another shape (from a provider that
  ignores its schema, or from a foreign writer of the storage) is reported as a
  \<open>TypeError\<close> where it would enter the state.
\<close>

record Subject =
  subject_id :: string
  subject_name :: string

record Chapter =
  chapter_id :: string
  chapter_title :: string

record QuizQuestion =
  question :: string
  options :: "string list"
  correctAnswer :: int
  explanation :: string

record GlossaryTerm =
  glossary_term :: string
  glossary_definition :: string

subsection \<open>Values of the annotated types\<close>

fun strings_of :: "json list \<Rightarrow> string list option" where
  "strings_of [] = Some []"
| "strings_of (JStr s # xs) = map_option (Cons s) (strings_of xs)"
| "strings_of (v # xs) = None"

fun as_Source :: "json \<Rightarrow> Source option" where
  "as_Source (JObj kvs) =
     (case (map_of kvs ''title'', map_of kvs ''uri'') of
        (Some (JStr t), Some (JStr u)) \<Rightarrow> Some \<lparr>title = t, uri = u\<rparr>
      | _ \<Rightarrow> None)"
| "as_Source v = None"

fun as_QuizQuestion :: "json \<Rightarrow> QuizQuestion option" where
  "as_QuizQuestion (JObj kvs) =
     (case (map_of kvs ''question'', map_of kvs ''options'', map_of kvs ''correctAnswer'',
            map_of kvs ''explanation'') of
        (Some (JStr q), Some (JArr os), Some (JNum c), Some (JStr e)) \<Rightarrow>
          (case strings_of os of
             None \<Rightarrow> None
           | Some opts \<Rightarrow>
               Some \<lparr>question = q, options = opts, correctAnswer = c, explanation = e\<rparr>)
      | _ \<Rightarrow> None)"
| "as_QuizQuestion v = None"

fun as_GlossaryTerm :: "json \<Rightarrow> GlossaryTerm option" where
  "as_GlossaryTerm (JObj kvs) =
     (case (map_of kvs ''term'', map_of kvs ''definition'') of
        (Some (JStr t), Some (JStr d)) \<Rightarrow> Some \<lparr>glossary_term = t, glossary_definition = d\<rparr>
      | _ \<Rightarrow> None)"
| "as_GlossaryTerm v = None"

fun all_of :: "('a \<Rightarrow> 'b option) \<Rightarrow> 'a list \<Rightarrow> 'b list option" where
  "all_of f [] = Some []"
| "all_of f (x # xs) =
     (case f x of
        None \<Rightarrow> None
      | Some y \<Rightarrow> map_option (Cons y) (all_of f xs))"

fun as_array :: "(json \<Rightarrow> 'a option) \<Rightarrow> json \<Rightarrow> 'a list option" where
  "as_array f (JArr xs) = all_of f xs"
| "as_array f v = None"

text \<open>The object an \<open>ExplanationResult\<close> is, as it is handed to the cache.\<close>

definition Source_json :: "Source \<Rightarrow> json" where
  "Source_json s = JObj [(''title'', JStr (title s)), (''uri'', JStr (uri s))]"

definition ExplanationResult_json :: "ExplanationResult \<Rightarrow> json" where
  "ExplanationResult_json r =
     JObj [(''content'', JStr (content r)), (''sources'', JArr (map Source_json (sources r)))]"

text \<open>
  A cached explanation as the content effect reads it: \<open>cachedData.content\<close> and
  \<open>cachedData.sources || []\<close>.
\<close>

fun as_ExplanationResult :: "json \<Rightarrow> ExplanationResult option" where
  "as_ExplanationResult (JObj kvs) =
     (case map_of kvs ''content'' of
        Some (JStr c) \<Rightarrow>
          (case map_of kvs ''sources'' of
             None \<Rightarrow> Some \<lparr>content = c, sources = []\<rparr>
           | Some v \<Rightarrow>
               if \<not> truthy v then Some \<lparr>content = c, sources = []\<rparr>
               else map_option (\<lambda>ss. \<lparr>content = c, sources = ss\<rparr>) (as_array as_Source v))
      | _ \<Rightarrow> None)"
| "as_ExplanationResult v = None"

subsection \<open>Cache keys\<close>

definition syllabus_key :: "nat \<Rightarrow> string \<Rightarrow> string \<Rightarrow> string" where
  "syllabus_key selectedClass subjectId chapterId =
     ''syllabus_'' @ string_of_nat selectedClass @ ''_'' @ subjectId @ ''_'' @ chapterId"

definition content_key :: "nat \<Rightarrow> string \<Rightarrow> string \<Rightarrow> int \<Rightarrow> string" where
  "content_key selectedClass subjectId chapterId topicIndex =
     ''content_'' @ string_of_nat selectedClass @ ''_'' @ subjectId @ ''_'' @ chapterId @ ''_'' @
       string_of_int topicIndex"

definition quiz_key :: "nat \<Rightarrow> string \<Rightarrow> string \<Rightarrow> string" where
  "quiz_key selectedClass subjectId chapterId =
     ''quiz_'' @ string_of_nat selectedClass @ ''_'' @ subjectId @ ''_'' @ chapterId"

definition glossary_key :: "nat \<Rightarrow> string \<Rightarrow> string" where
  "glossary_key selectedClass subjectId =
     ''glossary_'' @ string_of_nat selectedClass @ ''_'' @ subjectId"

subsection \<open>Learning a chapter (\<open>views/ChapterLearn\<close>)\<close>

text \<open>
  The state cells \<open>content\<close> and \<open>sources\<close> are the two fields of an
  \<open>ExplanationResult\<close>; the state record extends it by the other cells.
  \<open>scrollTop\<close>, \<open>scrollHeight\<close> and \<open>clientHeight\<close> are numbers of the page; the
  model computes with them as reals.
\<close>

record ChapterLearn_state = ExplanationResult +
  topics :: "string list"
  currentTopicIndex :: int
  loadingContent :: bool
  loadingSyllabus :: bool
  isSidebarOpen :: bool
  readProgress :: real

text \<open>The state of a freshly mounted component (the arguments of its \<open>useState\<close>).\<close>

definition ChapterLearn_initial :: ChapterLearn_state where
  "ChapterLearn_initial =
     \<lparr>content = [], sources = [], topics = [], currentTopicIndex = 0, loadingContent = False,
      loadingSyllabus = True, isSidebarOpen = False, readProgress = 0\<rparr>"

text \<open>
  \<open>cachedSyllabus && cachedSyllabus.length > 0\<close> on the cached value: \<open>Some\<close> topics on
  a hit, \<open>None\<close> when the test fails and the syllabus is fetched.
\<close>

fun cached_syllabus :: "json \<Rightarrow> js_error + string list option" where
  "cached_syllabus (JArr xs) =
     (case strings_of xs of
        None \<Rightarrow> Inl TypeError
      | Some ts \<Rightarrow> Inr (if ts = [] then None else Some ts))"
| "cached_syllabus (JStr s) = (if s = [] then Inr None else Inl TypeError)"
| "cached_syllabus (JObj kvs) = (if map_of kvs ''length'' = None then Inr None else Inl TypeError)"
| "cached_syllabus v = Inr None"

text \<open>
  \<open>fetchedTopics.filter(t => t.toLowerCase() !== "introduction")\<close> needs an array of
  strings; on anything else it throws, inside the \<open>try\<close> of \<open>initializeChapter\<close>.
\<close>

fun topic_strings :: "json \<Rightarrow> string list option" where
  "topic_strings (JArr xs) = strings_of xs"
| "topic_strings v = None"

definition initializeChapter ::
  "json_codec \<Rightarrow> client \<Rightarrow> nat \<Rightarrow> Subject option \<Rightarrow> Chapter option \<Rightarrow>
   ChapterLearn_state \<Rightarrow> localStorage \<Rightarrow> js_error + ChapterLearn_state \<times> localStorage" where
  "initializeChapter cd ai selectedClass subject chapter st ls =
     (case (subject, chapter) of
        (Some sub, Some ch) \<Rightarrow>
          (let st1 = st\<lparr>loadingSyllabus := True, currentTopicIndex := 0, content := [],
                        sources := [], readProgress := 0\<rparr>;
               syllabusKey = syllabus_key selectedClass (subject_id sub) (chapter_id ch)
           in case cached_syllabus (getCachedContent cd syllabusKey ls) of
                Inl e \<Rightarrow> Inl e
              | Inr (Some cachedSyllabus) \<Rightarrow>
                  Inr (st1\<lparr>topics := cachedSyllabus, loadingSyllabus := False\<rparr>, ls)
              | Inr None \<Rightarrow>
                  (let firstTopicPlaceholder = ''Introduction'';
                       fetchedTopics =
                         getChapterSyllabus cd ai selectedClass (subject_name sub) (chapter_title ch);
                       firstContentResult =
                         generateTopicExplanation ai selectedClass (subject_name sub)
                           (chapter_title ch) (Some firstTopicPlaceholder)
                   in case topic_strings fetchedTopics of
                        None \<Rightarrow>
                          Inr (st1\<lparr>topics := [''Detailed Explanation''],
                                   loadingSyllabus := False\<rparr>, ls)
                      | Some ts \<Rightarrow>
                          (let filteredTopics = filter (\<lambda>t. toLowerCase t \<noteq> ''introduction'') ts;
                               finalTopics = firstTopicPlaceholder # filteredTopics;
                               ls1 = saveCachedContent cd syllabusKey (JArr (map JStr finalTopics)) ls;
                               contentKey =
                                 content_key selectedClass (subject_id sub) (chapter_id ch) 0;
                               ls2 = saveCachedContent cd contentKey
                                       (ExplanationResult_json firstContentResult) ls1
                           in Inr (st1\<lparr>topics := finalTopics, loadingSyllabus := False\<rparr>, ls2))))
      | _ \<Rightarrow> Inr (st, ls))"

text \<open>
  The effect that loads the content of the current topic. \<open>generateTopicExplanation\<close>
  never rejects, so the \<open>catch\<close> of the effect is not reached.
\<close>

definition contentEffect ::
  "json_codec \<Rightarrow> client \<Rightarrow> nat \<Rightarrow> Subject option \<Rightarrow> Chapter option \<Rightarrow>
   ChapterLearn_state \<Rightarrow> localStorage \<Rightarrow> js_error + ChapterLearn_state \<times> localStorage" where
  "contentEffect cd ai selectedClass subject chapter st ls =
     (case (subject, chapter) of
        (Some sub, Some ch) \<Rightarrow>
          if topics st = [] then Inr (st, ls)
          else
            (let currentTopic = at_index (topics st) (currentTopicIndex st);
                 contentKey =
                   content_key selectedClass (subject_id sub) (chapter_id ch) (currentTopicIndex st);
                 cachedData = getCachedContent cd contentKey ls;
                 st1 = st\<lparr>loadingContent := True, readProgress := 0\<rparr>
             in if truthy cachedData
                then (case as_ExplanationResult cachedData of
                        None \<Rightarrow> Inl TypeError
                      | Some r \<Rightarrow>
                          Inr (st1\<lparr>content := content r, sources := sources r,
                                   loadingContent := False\<rparr>, ls))
                else
                  (let result =
                         generateTopicExplanation ai selectedClass (subject_name sub)
                           (chapter_title ch) currentTopic
                   in Inr (st1\<lparr>content := content result, sources := sources result,
                               loadingContent := False\<rparr>,
                           saveCachedContent cd contentKey (ExplanationResult_json result) ls)))
      | _ \<Rightarrow> Inr (st, ls))"

text \<open>The effect that marks the chapter complete at the last topic.\<close>

definition completionEffect ::
  "json_codec \<Rightarrow> nat \<Rightarrow> Subject option \<Rightarrow> Chapter option \<Rightarrow>
   ChapterLearn_state \<Rightarrow> localStorage \<Rightarrow> js_error + localStorage" where
  "completionEffect cd selectedClass subject chapter st ls =
     (case (subject, chapter) of
        (Some sub, Some ch) \<Rightarrow>
          if topics st \<noteq> [] \<and> currentTopicIndex st = int (length (topics st)) - 1
             \<and> \<not> loadingContent st
          then markChapterComplete cd selectedClass (subject_id sub) (chapter_id ch) ls
          else Inr ls
      | _ \<Rightarrow> Inr ls)"

definition handleNext :: "ChapterLearn_state \<Rightarrow> ChapterLearn_state" where
  "handleNext st =
     (if currentTopicIndex st < int (length (topics st)) - 1
      then st\<lparr>currentTopicIndex := currentTopicIndex st + 1\<rparr>
      else st)"

definition handlePrev :: "ChapterLearn_state \<Rightarrow> ChapterLearn_state" where
  "handlePrev st =
     (if currentTopicIndex st > 0
      then st\<lparr>currentTopicIndex := currentTopicIndex st - 1\<rparr>
      else st)"

definition handleScroll :: "real \<Rightarrow> real \<Rightarrow> real \<Rightarrow> ChapterLearn_state \<Rightarrow> ChapterLearn_state" where
  "handleScroll scrollTop scrollHeight clientHeight st =
     (if scrollHeight - clientHeight > 0
      then st\<lparr>readProgress := (scrollTop / (scrollHeight - clientHeight)) * 100\<rparr>
      else st\<lparr>readProgress := 100\<rparr>)"

subsection \<open>The quiz (\<open>views/Quiz\<close>)\<close>

record Quiz_state =
  questions :: "QuizQuestion list"
  loading :: bool
  currentQuestionIndex :: int
  selectedOption :: "int option"
  isAnswered :: bool
  score :: int
  showResults :: bool

definition Quiz_initial :: Quiz_state where
  "Quiz_initial =
     \<lparr>questions = [], loading = True, currentQuestionIndex = 0, selectedOption = None,
      isAnswered = False, score = 0, showResults = False\<rparr>"

definition loadQuiz ::
  "json_codec \<Rightarrow> client \<Rightarrow> nat \<Rightarrow> Subject option \<Rightarrow> Chapter option \<Rightarrow>
   Quiz_state \<Rightarrow> localStorage \<Rightarrow> js_error + Quiz_state \<times> localStorage" where
  "loadQuiz cd ai selectedClass subject chapter st ls =
     (case (subject, chapter) of
        (Some sub, Some ch) \<Rightarrow>
          (let st1 = st\<lparr>loading := True, showResults := False, currentQuestionIndex := 0,
                        score := 0, questions := [], selectedOption := None,
                        isAnswered := False\<rparr>;
               cacheKey = quiz_key selectedClass (subject_id sub) (chapter_id ch);
               cachedData = getCachedContent cd cacheKey ls
           in if truthy cachedData
              then (case as_array as_QuizQuestion cachedData of
                      None \<Rightarrow> Inl TypeError
                    | Some cached \<Rightarrow> Inr (st1\<lparr>questions := cached, loading := False\<rparr>, ls))
              else
                (let qs = generateChapterQuiz cd ai selectedClass (subject_name sub)
                            (chapter_title ch)
                 in case as_array as_QuizQuestion qs of
                      None \<Rightarrow> Inl TypeError
                    | Some fetched \<Rightarrow>
                        Inr (st1\<lparr>questions := fetched, loading := False\<rparr>,
                             if length fetched > 0 then saveCachedContent cd cacheKey qs ls
                             else ls)))
      | _ \<Rightarrow> Inr (st, ls))"

definition handleOptionSelect :: "int \<Rightarrow> Quiz_state \<Rightarrow> Quiz_state" where
  "handleOptionSelect index st =
     (if isAnswered st then st else st\<lparr>selectedOption := Some index\<rparr>)"

text \<open>
  \<open>questions[currentQuestionIndex].correctAnswer\<close> throws a \<open>TypeError\<close> when the index
  is outside the list.
\<close>

definition handleSubmitAnswer :: "Quiz_state \<Rightarrow> js_error + Quiz_state" where
  "handleSubmitAnswer st =
     (if selectedOption st = None then Inr st
      else (case at_index (questions st) (currentQuestionIndex st) of
              None \<Rightarrow> Inl TypeError
            | Some q \<Rightarrow>
                Inr (st\<lparr>isAnswered := True,
                         score := (if selectedOption st = Some (correctAnswer q)
                                   then score st + 1 else score st)\<rparr>)))"

text \<open>
  \<open>handleNextQuestion\<close>; \<open>now\<close> is \<open>new Date().toISOString()\<close>. The callback
  \<open>onProgressUpdate\<close> belongs to the parent and changes neither this state nor the
  storage.
\<close>

definition handleNextQuestion ::
  "json_codec \<Rightarrow> string \<Rightarrow> nat \<Rightarrow> Subject option \<Rightarrow> Chapter option \<Rightarrow>
   Quiz_state \<Rightarrow> localStorage \<Rightarrow> js_error + Quiz_state \<times> localStorage" where
  "handleNextQuestion cd now selectedClass subject chapter st ls =
     (if currentQuestionIndex st < int (length (questions st)) - 1
      then Inr (st\<lparr>currentQuestionIndex := currentQuestionIndex st + 1,
                   selectedOption := None, isAnswered := False\<rparr>, ls)
      else
        (case (subject, chapter) of
           (Some sub, Some ch) \<Rightarrow>
             (case at_index (questions st) (currentQuestionIndex st) of
                None \<Rightarrow> Inl TypeError
              | Some q \<Rightarrow>
                  (case saveQuizScore cd selectedClass (subject_id sub) (chapter_id ch)
                          (QuizResult
                             (score st + (if selectedOption st = Some (correctAnswer q) then 1 else 0))
                             (int (length (questions st)))
                             now)
                          ls of
                     Inl e \<Rightarrow> Inl e
                   | Inr ls' \<Rightarrow> Inr (st\<lparr>showResults := True\<rparr>, ls')))
         | _ \<Rightarrow> Inr (st\<lparr>showResults := True\<rparr>, ls)))"

text \<open>
  A learner's pass over one question: choose an option, submit it, go on. A whole quiz
  is one pass per question, in order.
\<close>

definition answerQuestion ::
  "json_codec \<Rightarrow> string \<Rightarrow> nat \<Rightarrow> Subject option \<Rightarrow> Chapter option \<Rightarrow> int \<Rightarrow>
   Quiz_state \<Rightarrow> localStorage \<Rightarrow> js_error + Quiz_state \<times> localStorage" where
  "answerQuestion cd now selectedClass subject chapter choice st ls =
     (case handleSubmitAnswer (handleOptionSelect choice st) of
        Inl e \<Rightarrow> Inl e
      | Inr st' \<Rightarrow> handleNextQuestion cd now selectedClass subject chapter st' ls)"

fun answerAll ::
  "json_codec \<Rightarrow> string \<Rightarrow> nat \<Rightarrow> Subject option \<Rightarrow> Chapter option \<Rightarrow> int list \<Rightarrow>
   Quiz_state \<Rightarrow> localStorage \<Rightarrow> js_error + Quiz_state \<times> localStorage" where
  "answerAll cd now selectedClass subject chapter [] st ls = Inr (st, ls)"
| "answerAll cd now selectedClass subject chapter (choice # choices) st ls =
     (case answerQuestion cd now selectedClass subject chapter choice st ls of
        Inl e \<Rightarrow> Inl e
      | Inr (st', ls') \<Rightarrow> answerAll cd now selectedClass subject chapter choices st' ls')"

subsection \<open>The glossary (\<open>views/Glossary\<close>)\<close>

record Glossary_state =
  terms :: "GlossaryTerm list"
  loadingTerms :: bool

definition Glossary_initial :: Glossary_state where
  "Glossary_initial = \<lparr>terms = [], loadingTerms = False\<rparr>"

text \<open>
  \<open>fetchTerms\<close>; \<open>SUBJECTS\<close> is the table of subjects, looked up for the subject's
  name (\<open>SUBJECTS.find(s => s.id === subId)?.name || ''\<close>).
\<close>

definition fetchTerms ::
  "json_codec \<Rightarrow> client \<Rightarrow> Subject list \<Rightarrow> nat \<Rightarrow> string \<Rightarrow>
   Glossary_state \<Rightarrow> localStorage \<Rightarrow> js_error + Glossary_state \<times> localStorage" where
  "fetchTerms cd ai SUBJECTS selectedClass subId st ls =
     (let key = glossary_key selectedClass subId;
          cached = getCachedContent cd key ls
      in if truthy cached
         then (case as_array as_GlossaryTerm cached of
                 None \<Rightarrow> Inl TypeError
               | Some ts \<Rightarrow> Inr (st\<lparr>terms := ts\<rparr>, ls))
         else
           (let subName = (case find (\<lambda>s. subject_id s = subId) SUBJECTS of
                             None \<Rightarrow> []
                           | Some s \<Rightarrow> subject_name s);
                newTerms = generateSubjectGlossary cd ai selectedClass subName
            in case as_array as_GlossaryTerm newTerms of
                 None \<Rightarrow> Inl TypeError
               | Some ts \<Rightarrow>
                   Inr (st\<lparr>terms := ts, loadingTerms := False\<rparr>,
                        if length ts > 0 then saveCachedContent cd key newTerms ls else ls)))"

section \<open>A concrete JSON for running the model\<close>

text \<open>
  To run the model on concrete inputs the codec is instantiated: \<open>JSON_stringify\<close> is the
  JSON text of a value (for strings that need no escape), and \<open>JSON_parse\<close> is its
  inverse on a given list of values, every other text being refused. In each run below
  the list holds every value whose text the run parses, and the texts it refuses are not
  JSON.
\<close>

fun join :: "string \<Rightarrow> string list \<Rightarrow> string" where
  "join sep [] = []"
| "join sep [x] = x"
| "join sep (x # y # ys) = x @ sep @ join sep (y # ys)"

fun json_text :: "json \<Rightarrow> string" where
  "json_text JNull = ''null''"
| "json_text (JBool b) = (if b then ''true'' else ''false'')"
| "json_text (JNum i) = string_of_int i"
| "json_text (JStr s) = CHR 0x22 # s @ [CHR 0x22]"
| "json_text (JArr xs) = ''['' @ join '','' (map json_text xs) @ '']''"
| "json_text (JObj kvs) =
     ''{'' @ join '','' (map (\<lambda>(k, v). CHR 0x22 # k @ [CHR 0x22] @ '':'' @ json_text v) kvs) @ ''}''"

definition known_JSON :: "json list \<Rightarrow> json_codec" where
  "known_JSON vals =
     \<lparr>JSON_parse = (\<lambda>s. find (\<lambda>v. json_text v = s) vals), JSON_stringify = json_text\<rparr>"

text \<open>A storage that holds items of at most \<open>n\<close> characters, name and text together.\<close>

definition item_limit :: "nat \<Rightarrow> quota" where
  "item_limit n ls name t \<longleftrightarrow> length name + length t \<le> n"

text \<open>A text of 4500000 characters, to reach the ceiling of the cache.\<close>

definition big_text :: string where
  "big_text = replicate 4500000 (CHR ''a'')"

section \<open>Auxiliary facts\<close>

lemma length_big_text: "length big_text = 4500000"
  by (simp only: big_text_def length_replicate)

lemma big_text_not_empty: "big_text \<noteq> []"
  using length_big_text by auto

lemma getItem_or_upd:
  "getItem_or (ls(name \<mapsto> s)) name d = (if s = [] then d else s)"
  by (simp add: getItem_or_def)

lemma chapter_key_example: "chapter_key 12 ''accounts'' ''ch1'' = ''12-accounts-ch1''"
  by (simp add: chapter_key_def string_of_nat.simps digit_char_def)

lemma content_key_example:
  "content_key 12 ''accounts'' ''ch1'' 0 = ''content_12_accounts_ch1_0''"
  by (simp add: content_key_def string_of_int_def string_of_nat.simps digit_char_def)

lemma syllabus_key_example: "syllabus_key 12 ''accounts'' ''ch1'' = ''syllabus_12_accounts_ch1''"
  by (simp add: syllabus_key_def string_of_nat.simps digit_char_def)

lemma quiz_key_example: "quiz_key 12 ''accounts'' ''ch1'' = ''quiz_12_accounts_ch1''"
  by (simp add: quiz_key_def string_of_nat.simps digit_char_def)

lemma glossary_key_example: "glossary_key 12 ''accounts'' = ''glossary_12_accounts''"
  by (simp add: glossary_key_def string_of_nat.simps digit_char_def)

lemma saveCachedContent_unfold:
  "saveCachedContent cd key data ls =
     (case JSON_parse cd (getItem_or ls CONTENT_CACHE_KEY ''{}'') of
        None \<Rightarrow> ls
      | Some currentCache \<Rightarrow>
          (case assign_member currentCache key data of
             Inl e \<Rightarrow> ls
           | Inr currentCache' \<Rightarrow>
               (let jsonString = JSON_stringify cd currentCache' in
                if length jsonString > 4500000
                then ls(CONTENT_CACHE_KEY \<mapsto> JSON_stringify cd (JObj [(key, data)]))
                else ls(CONTENT_CACHE_KEY \<mapsto> jsonString))))"
  by (simp add: saveCachedContent_def saveCachedContent_quota_def accepts_all_def Let_def
      split: option.splits sum.splits)

lemma getCachedContent_saved:
  assumes "JSON_parse cd (getItem_or ls CONTENT_CACHE_KEY ''{}'') = Some (JObj kvs)"
      and "length (JSON_stringify cd (JObj (AList.update key v kvs))) \<le> 4500000"
      and "roundtrips cd (JObj (AList.update key v kvs))"
  shows "getCachedContent cd key (saveCachedContent cd key v ls) = (if truthy v then v else JNull)"
  using assms
  by (simp add: saveCachedContent_unfold getCachedContent_def roundtrips_def update_conv
      getItem_or_upd)

lemma current_progress_saved:
  "roundtrips cd (JObj kvs) \<Longrightarrow>
     current_progress cd (saveProgress cd (JObj kvs) ls) = Inr (JObj kvs)"
  by (simp add: current_progress_def loadProgress_def saveProgress_def roundtrips_def)

lemma current_progress_fresh: "ls STORAGE_KEY = None \<Longrightarrow> current_progress cd ls = Inr empty_progress"
  by (simp add: current_progress_def loadProgress_def)

lemma saveProgress_other: "name \<noteq> STORAGE_KEY \<Longrightarrow> saveProgress cd p ls name = ls name"
  by (simp add: saveProgress_def)

lemma markChapterComplete_present:
  assumes "current_progress cd ls = Inr (JObj kvs)"
      and "map_of kvs ''completedChapters'' = Some (JArr xs)"
      and "JStr (chapter_key c s ch) \<in> set xs"
  shows "markChapterComplete cd c s ch ls = Inr ls"
  using assms by (simp add: markChapterComplete_def)

lemma markChapterComplete_absent:
  assumes "current_progress cd ls = Inr (JObj kvs)"
      and "map_of kvs ''completedChapters'' = Some (JArr xs)"
      and "JStr (chapter_key c s ch) \<notin> set xs"
  shows "markChapterComplete cd c s ch ls =
           Inr (saveProgress cd
                  (JObj (AList.update ''completedChapters''
                           (JArr (xs @ [JStr (chapter_key c s ch)])) kvs)) ls)"
  using assms by (simp add: markChapterComplete_def)

lemma markChapterComplete_times_fixed:
  "markChapterComplete cd c s ch ls = Inr ls \<Longrightarrow>
     markChapterComplete_times n cd c s ch ls = Inr ls"
  by (induction n) simp_all

lemma count_list_distinct: "distinct xs \<Longrightarrow> x \<in> set xs \<Longrightarrow> count_list xs x = 1"
  by (induction xs) (auto simp: count_list_0_iff)

lemma saveQuizScore_writes:
  assumes "current_progress cd ls = Inr (JObj kvs)"
      and "map_of kvs ''quizScores'' = Some (JObj scores)"
  shows "saveQuizScore cd c s ch result ls =
           Inr (saveProgress cd
                  (JObj (AList.update ''quizScores''
                           (JObj (AList.update (chapter_key c s ch) result scores)) kvs)) ls)"
  using assms by (simp add: saveQuizScore_def)

lemma strings_of_map_JStr: "strings_of (map JStr L) = Some L"
  by (induction L) simp_all

lemma handleNextQuestion_last:
  assumes "\<not> currentQuestionIndex st < int (length (questions st)) - 1"
      and "at_index (questions st) (currentQuestionIndex st) = Some q"
      and "current_progress cd ls = Inr (JObj kvs)"
      and "map_of kvs ''quizScores'' = Some (JObj scores)"
  shows "handleNextQuestion cd now c (Some sub) (Some ch) st ls =
           Inr (st\<lparr>showResults := True\<rparr>,
                saveProgress cd
                  (JObj (AList.update ''quizScores''
                           (JObj (AList.update (chapter_key c (subject_id sub) (chapter_id ch))
                                    (QuizResult
                                       (score st +
                                          (if selectedOption st = Some (correctAnswer q) then 1 else 0))
                                       (int (length (questions st))) now)
                                    scores)) kvs)) ls)"
  using assms by (simp add: handleNextQuestion_def saveQuizScore_writes)

section \<open>Reading the persisted records\<close>

text \<open>
  Claim C3: a persisted text that fails to parse is read as absent, by \<open>loadProgress\<close>
  and by \<open>getCachedContent\<close>, and never throws to the caller.

  The cache half holds: \<open>getCachedContent\<close> returns \<open>null\<close>. The progress half does
  not: for every non-empty text under the progress item that \<open>JSON.parse\<close> refuses,
  \<open>loadProgress\<close> throws the \<open>SyntaxError\<close>, and so do the two mutators that call it.
\<close>

theorem corrupt_progress_throws:
  assumes "ls STORAGE_KEY = Some d1" and "d1 \<noteq> []" and "JSON_parse cd d1 = None"
      and "ls CONTENT_CACHE_KEY = Some d2" and "d2 \<noteq> []" and "JSON_parse cd d2 = None"
  shows "loadProgress cd ls = Inl SyntaxError
         \<and> markChapterComplete cd c s ch ls = Inl SyntaxError
         \<and> saveQuizScore cd c s ch result ls = Inl SyntaxError
         \<and> getCachedContent cd key ls = JNull"
  using assms
  by (simp add: loadProgress_def current_progress_def markChapterComplete_def saveQuizScore_def
      getCachedContent_def getItem_or_def)

theorem corrupt_progress_throws_witness:
  "loadProgress (known_JSON []) [STORAGE_KEY \<mapsto> ''{'', CONTENT_CACHE_KEY \<mapsto> ''{'']
     = Inl SyntaxError
   \<and> getCachedContent (known_JSON []) ''quiz_12_accounts_ch1''
        [STORAGE_KEY \<mapsto> ''{'', CONTENT_CACHE_KEY \<mapsto> ''{''] = JNull"
  using corrupt_progress_throws
          [of "[STORAGE_KEY \<mapsto> ''{'', CONTENT_CACHE_KEY \<mapsto> ''{'']" "''{''" "known_JSON []"
              "''{''" 12 "''accounts''" "''ch1''" JNull "''quiz_12_accounts_ch1''"]
  by (simp add: known_JSON_def STORAGE_KEY_def CONTENT_CACHE_KEY_def)

section \<open>The content cache\<close>

text \<open>
  Claim C5 (as amended): let the key be no name of \<open>Object.prototype\<close>, the stored
  container be an object (or the item missing or empty), the container with the entry
  \<open>(key, v)\<close> serialize to at most 4500000 characters and parse back, and the storage
  accept the write. Then after \<open>saveCachedContent key v\<close> the read
  \<open>getCachedContent key\<close> returns \<open>v\<close>; for a falsy \<open>v\<close> (\<open>null\<close>, \<open>false\<close>, \<open>0\<close>,
  the empty string), which no caller passes, it returns \<open>null\<close>, as the read ends in
  \<open>|| null\<close>.
\<close>

theorem cache_write_through:
  assumes "own_name key"
      and "JSON_parse cd (getItem_or ls CONTENT_CACHE_KEY ''{}'') = Some (JObj kvs)"
      and "length (JSON_stringify cd (JObj (AList.update key v kvs))) \<le> 4500000"
      and "accepts ls CONTENT_CACHE_KEY (JSON_stringify cd (JObj (AList.update key v kvs)))"
      and "roundtrips cd (JObj (AList.update key v kvs))"
  shows "saveCachedContent_quota accepts cd key v ls
           = ls(CONTENT_CACHE_KEY \<mapsto> JSON_stringify cd (JObj (AList.update key v kvs)))
         \<and> getCachedContent cd key (saveCachedContent_quota accepts cd key v ls)
             = (if truthy v then v else JNull)"
  using assms
  by (simp add: saveCachedContent_quota_def getCachedContent_def roundtrips_def update_conv
      getItem_or_upd)

text \<open>
  A run on an empty storage that holds items of 5000000 characters: a syllabus is cached
  and read back.
\<close>

theorem cache_write_through_witness:
  "getCachedContent
     (known_JSON [JObj [], JObj [(''syllabus_12_accounts_ch1'', JArr [JStr ''Introduction''])]])
     ''syllabus_12_accounts_ch1''
     (saveCachedContent_quota (item_limit 5000000)
        (known_JSON [JObj [], JObj [(''syllabus_12_accounts_ch1'', JArr [JStr ''Introduction''])]])
        ''syllabus_12_accounts_ch1'' (JArr [JStr ''Introduction'']) Map.empty)
    = JArr [JStr ''Introduction'']"
proof -
  let ?cd = "known_JSON [JObj [], JObj [(''syllabus_12_accounts_ch1'', JArr [JStr ''Introduction''])]]"
  have own: "own_name ''syllabus_12_accounts_ch1''"
    by (simp add: own_name_def Object_prototype_names_def)
  have stored: "JSON_parse ?cd (getItem_or Map.empty CONTENT_CACHE_KEY ''{}'') = Some (JObj [])"
    by (simp add: known_JSON_def getItem_or_def)
  have size: "length (JSON_stringify ?cd
                (JObj (AList.update ''syllabus_12_accounts_ch1'' (JArr [JStr ''Introduction'']) [])))
              \<le> 4500000"
    by (simp add: known_JSON_def)
  have acc: "item_limit 5000000 Map.empty CONTENT_CACHE_KEY
               (JSON_stringify ?cd
                  (JObj (AList.update ''syllabus_12_accounts_ch1'' (JArr [JStr ''Introduction'']) [])))"
    by (simp add: item_limit_def known_JSON_def CONTENT_CACHE_KEY_def)
  have rt: "roundtrips ?cd
              (JObj (AList.update ''syllabus_12_accounts_ch1'' (JArr [JStr ''Introduction'']) []))"
    by (simp add: known_JSON_def roundtrips_def)
  have "getCachedContent ?cd ''syllabus_12_accounts_ch1''
          (saveCachedContent_quota (item_limit 5000000) ?cd ''syllabus_12_accounts_ch1''
             (JArr [JStr ''Introduction'']) Map.empty)
        = (if truthy (JArr [JStr ''Introduction'']) then JArr [JStr ''Introduction''] else JNull)"
    using cache_write_through [where accepts = "item_limit 5000000", OF own stored size acc rt]
    by (rule conjunct2)
  then show ?thesis by simp
qed

text \<open>
  The claim as stated has no condition on what is stored, and fails when the stored
  text does not parse: with \<open>{\<close> under the cache item, the write of a syllabus is
  caught and changes nothing (no container is serialized, so none exceeds the ceiling),
  and the read returns \<open>null\<close>.
\<close>

theorem cache_write_through_corrupt_counterexample:
  "saveCachedContent_quota (item_limit 5000000)
     (known_JSON [JObj [], JObj [(''syllabus_12_accounts_ch1'', JArr [JStr ''Introduction''])]])
     ''syllabus_12_accounts_ch1'' (JArr [JStr ''Introduction''])
     [CONTENT_CACHE_KEY \<mapsto> ''{'']
     = [CONTENT_CACHE_KEY \<mapsto> ''{'']
   \<and> getCachedContent
       (known_JSON [JObj [], JObj [(''syllabus_12_accounts_ch1'', JArr [JStr ''Introduction''])]])
       ''syllabus_12_accounts_ch1''
       (saveCachedContent_quota (item_limit 5000000)
          (known_JSON [JObj [], JObj [(''syllabus_12_accounts_ch1'', JArr [JStr ''Introduction''])]])
          ''syllabus_12_accounts_ch1'' (JArr [JStr ''Introduction''])
          [CONTENT_CACHE_KEY \<mapsto> ''{''])
     = JNull"
  by (simp add: saveCachedContent_quota_def getCachedContent_def known_JSON_def getItem_or_def)

text \<open>
  Claim C6 (as amended): let the key be no name of \<open>Object.prototype\<close>, the stored
  container be an object, and the container with the entry \<open>(key, v)\<close> serialize to
  more than 4500000 characters. Then the stored container is removed, and

  \<^item> when the storage accepts the container holding only \<open>(key, v)\<close>, that container is
    stored: afterwards \<open>getCachedContent key\<close> returns \<open>v\<close> (\<open>null\<close> for a falsy
    \<open>v\<close>, which no caller passes), and \<open>getCachedContent\<close> of every other key that is
    no name of \<open>Object.prototype\<close> returns \<open>null\<close>;
  \<^item> when the storage refuses it (the entry alone is too large), the failure is caught
    and the cache is left empty: \<open>getCachedContent\<close> returns \<open>null\<close> for \<open>key\<close> too.
\<close>

theorem cache_overflow_flush:
  assumes "own_name key"
      and "JSON_parse cd (getItem_or ls CONTENT_CACHE_KEY ''{}'') = Some (JObj kvs)"
      and "length (JSON_stringify cd (JObj (AList.update key v kvs))) > 4500000"
      and "roundtrips cd (JObj [(key, v)])"
      and "JSON_parse cd ''{}'' = Some (JObj [])"
  shows "(accepts (ls(CONTENT_CACHE_KEY := None)) CONTENT_CACHE_KEY
            (JSON_stringify cd (JObj [(key, v)])) \<longrightarrow>
            saveCachedContent_quota accepts cd key v ls
              = ls(CONTENT_CACHE_KEY \<mapsto> JSON_stringify cd (JObj [(key, v)]))
            \<and> getCachedContent cd key (saveCachedContent_quota accepts cd key v ls)
                = (if truthy v then v else JNull)
            \<and> (\<forall>other. other \<noteq> key \<and> own_name other \<longrightarrow>
                  getCachedContent cd other (saveCachedContent_quota accepts cd key v ls) = JNull))
       \<and> (\<not> accepts (ls(CONTENT_CACHE_KEY := None)) CONTENT_CACHE_KEY
              (JSON_stringify cd (JObj [(key, v)])) \<longrightarrow>
            saveCachedContent_quota accepts cd key v ls = ls(CONTENT_CACHE_KEY := None)
            \<and> (\<forall>any. own_name any \<longrightarrow>
                  getCachedContent cd any (saveCachedContent_quota accepts cd key v ls) = JNull))"
  using assms
  by (simp add: saveCachedContent_quota_def getCachedContent_def roundtrips_def getItem_or_upd
      getItem_or_def)

text \<open>
  A run on a storage that holds items of 5000000 characters: the cache holds one
  explanation of 4500000 characters; caching a syllabus overflows, the syllabus is
  readable afterwards, and the explanation, readable before, is gone.
\<close>

theorem cache_overflow_flush_witness:
  "getCachedContent
     (known_JSON [JObj [], JObj [(''content_12_accounts_ch1_0'', JStr big_text)],
                  JObj [(''syllabus_12_accounts_ch1'', JArr [JStr ''Introduction''])]])
     ''syllabus_12_accounts_ch1''
     (saveCachedContent_quota (item_limit 5000000)
        (known_JSON [JObj [], JObj [(''content_12_accounts_ch1_0'', JStr big_text)],
                     JObj [(''syllabus_12_accounts_ch1'', JArr [JStr ''Introduction''])]])
        ''syllabus_12_accounts_ch1'' (JArr [JStr ''Introduction''])
        [CONTENT_CACHE_KEY \<mapsto> json_text (JObj [(''content_12_accounts_ch1_0'', JStr big_text)])])
     = JArr [JStr ''Introduction'']
   \<and> getCachedContent
       (known_JSON [JObj [], JObj [(''content_12_accounts_ch1_0'', JStr big_text)],
                    JObj [(''syllabus_12_accounts_ch1'', JArr [JStr ''Introduction''])]])
       ''content_12_accounts_ch1_0''
       (saveCachedContent_quota (item_limit 5000000)
          (known_JSON [JObj [], JObj [(''content_12_accounts_ch1_0'', JStr big_text)],
                       JObj [(''syllabus_12_accounts_ch1'', JArr [JStr ''Introduction''])]])
          ''syllabus_12_accounts_ch1'' (JArr [JStr ''Introduction''])
          [CONTENT_CACHE_KEY \<mapsto> json_text (JObj [(''content_12_accounts_ch1_0'', JStr big_text)])])
     = JNull
   \<and> getCachedContent
       (known_JSON [JObj [], JObj [(''content_12_accounts_ch1_0'', JStr big_text)],
                    JObj [(''syllabus_12_accounts_ch1'', JArr [JStr ''Introduction''])]])
       ''content_12_accounts_ch1_0''
       [CONTENT_CACHE_KEY \<mapsto> json_text (JObj [(''content_12_accounts_ch1_0'', JStr big_text)])]
     = JStr big_text"
proof -
  let ?cd = "known_JSON [JObj [], JObj [(''content_12_accounts_ch1_0'', JStr big_text)],
                         JObj [(''syllabus_12_accounts_ch1'', JArr [JStr ''Introduction''])]]"
  let ?ls = "[CONTENT_CACHE_KEY \<mapsto> json_text (JObj [(''content_12_accounts_ch1_0'', JStr big_text)])]"
  have own: "own_name ''syllabus_12_accounts_ch1''"
    by (simp add: own_name_def Object_prototype_names_def)
  have own': "own_name ''content_12_accounts_ch1_0''"
    by (simp add: own_name_def Object_prototype_names_def)
  have stored: "JSON_parse ?cd (getItem_or ?ls CONTENT_CACHE_KEY ''{}'')
                  = Some (JObj [(''content_12_accounts_ch1_0'', JStr big_text)])"
    by (simp add: known_JSON_def getItem_or_def)
  have over: "length (JSON_stringify ?cd
                (JObj (AList.update ''syllabus_12_accounts_ch1'' (JArr [JStr ''Introduction''])
                         [(''content_12_accounts_ch1_0'', JStr big_text)]))) > 4500000"
    by (simp add: known_JSON_def length_big_text)
  have rt: "roundtrips ?cd (JObj [(''syllabus_12_accounts_ch1'', JArr [JStr ''Introduction''])])"
    by (simp add: known_JSON_def roundtrips_def)
  have empty: "JSON_parse ?cd ''{}'' = Some (JObj [])"
    by (simp add: known_JSON_def)
  have acc: "item_limit 5000000 (?ls(CONTENT_CACHE_KEY := None)) CONTENT_CACHE_KEY
               (JSON_stringify ?cd (JObj [(''syllabus_12_accounts_ch1'', JArr [JStr ''Introduction''])]))"
    by (simp add: item_limit_def known_JSON_def CONTENT_CACHE_KEY_def)
  have before: "getCachedContent ?cd ''content_12_accounts_ch1_0'' ?ls = JStr big_text"
    by (simp add: getCachedContent_def known_JSON_def getItem_or_def big_text_not_empty)
  note flush =
    cache_overflow_flush [where accepts = "item_limit 5000000", OF own stored over rt empty,
      THEN conjunct1, rule_format, OF acc, THEN conjunct2]
  have "getCachedContent ?cd ''syllabus_12_accounts_ch1''
          (saveCachedContent_quota (item_limit 5000000) ?cd ''syllabus_12_accounts_ch1''
             (JArr [JStr ''Introduction'']) ?ls)
        = (if truthy (JArr [JStr ''Introduction'']) then JArr [JStr ''Introduction''] else JNull)"
    using flush by (rule conjunct1)
  then have new: "getCachedContent ?cd ''syllabus_12_accounts_ch1''
               (saveCachedContent_quota (item_limit 5000000) ?cd ''syllabus_12_accounts_ch1''
                  (JArr [JStr ''Introduction'']) ?ls)
             = JArr [JStr ''Introduction'']"
    by simp
  have old: "getCachedContent ?cd ''content_12_accounts_ch1_0''
               (saveCachedContent_quota (item_limit 5000000) ?cd ''syllabus_12_accounts_ch1''
                  (JArr [JStr ''Introduction'']) ?ls)
             = JNull"
    using flush own' by (simp del: fun_upd_apply)
  show ?thesis
    using new old before by (intro conjI)
qed

text \<open>
  The claim as stated (the new entry is readable after an overflow) fails when the new
  entry alone is more than the storage holds. On an empty cache and a storage that holds
  items of 5000000 characters, caching an explanation of 9000000 characters overflows;
  the old item is removed, \<open>setItem\<close> of the new container fails and is caught, and the
  read of the key just written returns \<open>null\<close>.
\<close>

theorem cache_overflow_refused_counterexample:
  "length (JSON_stringify (known_JSON [JObj []])
             (JObj (AList.update ''content_12_accounts_ch1_0''
                      (JObj [(''content'', JStr (big_text @ big_text)), (''sources'', JArr [])])
                      []))) > 4500000
   \<and> saveCachedContent_quota (item_limit 5000000) (known_JSON [JObj []])
       ''content_12_accounts_ch1_0''
       (JObj [(''content'', JStr (big_text @ big_text)), (''sources'', JArr [])])
       Map.empty
     = Map.empty
   \<and> getCachedContent (known_JSON [JObj []]) ''content_12_accounts_ch1_0''
       (saveCachedContent_quota (item_limit 5000000) (known_JSON [JObj []])
          ''content_12_accounts_ch1_0''
          (JObj [(''content'', JStr (big_text @ big_text)), (''sources'', JArr [])])
          Map.empty)
     = JNull"
  by (simp add: saveCachedContent_quota_def getCachedContent_def known_JSON_def getItem_or_def
      length_big_text item_limit_def)

section \<open>The progress record\<close>

text \<open>
  Claim C8: \<open>markChapterComplete\<close> is idempotent. From a progress record whose
  \<open>completedChapters\<close> has no duplicates (the empty record of a fresh storage is one),
  calling it once or any number \<open>n > 0\<close> of times with the same key gives the same
  storage, in which \<open>completedChapters\<close> holds the key exactly once and still has no
  duplicates. (The record written must parse back, as JSON texts do.)
\<close>

theorem markChapterComplete_idempotent:
  assumes cur: "current_progress cd ls = Inr (JObj kvs)"
      and cc: "map_of kvs ''completedChapters'' = Some (JArr xs)"
      and dist: "distinct xs"
      and rt: "JStr (chapter_key c s ch) \<notin> set xs \<longrightarrow>
                 roundtrips cd (JObj (AList.update ''completedChapters''
                                        (JArr (xs @ [JStr (chapter_key c s ch)])) kvs))"
      and n: "0 < n"
  shows "\<exists>ls' xs'. markChapterComplete cd c s ch ls = Inr ls'
           \<and> markChapterComplete_times n cd c s ch ls = Inr ls'
           \<and> completedChapters_of cd ls' = Some xs'
           \<and> count_list xs' (JStr (chapter_key c s ch)) = 1
           \<and> distinct xs'"
proof (cases "JStr (chapter_key c s ch) \<in> set xs")
  case True
  have one: "markChapterComplete cd c s ch ls = Inr ls"
    using cur cc True by (rule markChapterComplete_present)
  have "markChapterComplete_times n cd c s ch ls = Inr ls"
    using one by (rule markChapterComplete_times_fixed)
  moreover have "completedChapters_of cd ls = Some xs"
    using cur cc by (simp add: completedChapters_of_def)
  moreover have "count_list xs (JStr (chapter_key c s ch)) = 1"
    using dist True by (rule count_list_distinct)
  ultimately show ?thesis using one dist by blast
next
  case False
  let ?key = "JStr (chapter_key c s ch)"
  let ?kvs = "AList.update ''completedChapters'' (JArr (xs @ [?key])) kvs"
  let ?ls = "saveProgress cd (JObj ?kvs) ls"
  have one: "markChapterComplete cd c s ch ls = Inr ?ls"
    using cur cc False by (rule markChapterComplete_absent)
  have rt': "roundtrips cd (JObj ?kvs)" using rt False by simp
  have cur': "current_progress cd ?ls = Inr (JObj ?kvs)"
    using rt' by (rule current_progress_saved)
  have cc': "map_of ?kvs ''completedChapters'' = Some (JArr (xs @ [?key]))"
    by (simp add: update_conv)
  have again: "markChapterComplete cd c s ch ?ls = Inr ?ls"
    using cur' cc' by (rule markChapterComplete_present) simp
  obtain m where m: "n = Suc m" using n by (cases n) auto
  have "markChapterComplete_times n cd c s ch ls = Inr ?ls"
    using one again by (simp add: m markChapterComplete_times_fixed)
  moreover have "completedChapters_of cd ?ls = Some (xs @ [?key])"
    using cur' cc' by (simp add: completedChapters_of_def)
  moreover have "distinct (xs @ [?key])" using dist False by simp
  moreover have "count_list (xs @ [?key]) ?key = 1"
    using False by (simp add: count_list_0_iff)
  ultimately show ?thesis using one by blast
qed

theorem markChapterComplete_idempotent_witness:
  "\<exists>ls' xs'.
     markChapterComplete
       (known_JSON [JObj [(''completedChapters'', JArr [JStr ''12-accounts-ch1'']),
                          (''quizScores'', JObj [])]])
       12 ''accounts'' ''ch1'' Map.empty = Inr ls'
     \<and> markChapterComplete_times 2
         (known_JSON [JObj [(''completedChapters'', JArr [JStr ''12-accounts-ch1'']),
                            (''quizScores'', JObj [])]])
         12 ''accounts'' ''ch1'' Map.empty = Inr ls'
     \<and> completedChapters_of
         (known_JSON [JObj [(''completedChapters'', JArr [JStr ''12-accounts-ch1'']),
                            (''quizScores'', JObj [])]]) ls' = Some xs'
     \<and> count_list xs' (JStr ''12-accounts-ch1'') = 1
     \<and> distinct xs'"
  using markChapterComplete_idempotent
          [of "known_JSON [JObj [(''completedChapters'', JArr [JStr ''12-accounts-ch1'']),
                                 (''quizScores'', JObj [])]]"
              Map.empty "[(''completedChapters'', JArr []), (''quizScores'', JObj [])]" "[]"
              12 "''accounts''" "''ch1''" 2]
  by (simp add: current_progress_fresh empty_progress_def chapter_key_example known_JSON_def
      roundtrips_def)


text \<open>
  Claim C10: the two mutators of the progress record frame each other. From a progress
  record with an array \<open>completedChapters\<close> and an object \<open>quizScores\<close>,
  \<open>saveQuizScore\<close> sets the entry of its key, leaves every other entry of
  \<open>quizScores\<close> and all of \<open>completedChapters\<close> as they were; \<open>markChapterComplete\<close>
  leaves \<open>quizScores\<close> as it was; neither touches another item of the storage.
\<close>

theorem progress_mutators_frame:
  assumes cur: "current_progress cd ls = Inr (JObj kvs)"
      and cc: "map_of kvs ''completedChapters'' = Some (JArr xs)"
      and qs: "map_of kvs ''quizScores'' = Some (JObj scores)"
      and rt1: "roundtrips cd (JObj (AList.update ''quizScores''
                                      (JObj (AList.update (chapter_key c s ch) result scores)) kvs))"
      and rt2: "JStr (chapter_key c s ch) \<notin> set xs \<longrightarrow>
                 roundtrips cd (JObj (AList.update ''completedChapters''
                                        (JArr (xs @ [JStr (chapter_key c s ch)])) kvs))"
  shows "(\<exists>ls1 scores1. saveQuizScore cd c s ch result ls = Inr ls1
            \<and> completedChapters_of cd ls1 = Some xs
            \<and> quizScores_of cd ls1 = Some scores1
            \<and> map_of scores1 (chapter_key c s ch) = Some result
            \<and> (\<forall>other. other \<noteq> chapter_key c s ch \<longrightarrow> map_of scores1 other = map_of scores other)
            \<and> (\<forall>name. name \<noteq> STORAGE_KEY \<longrightarrow> ls1 name = ls name))
       \<and> (\<exists>ls2. markChapterComplete cd c s ch ls = Inr ls2
            \<and> quizScores_of cd ls2 = Some scores
            \<and> (\<forall>name. name \<noteq> STORAGE_KEY \<longrightarrow> ls2 name = ls name))"
proof
  let ?sc = "AList.update (chapter_key c s ch) result scores"
  let ?kvs = "AList.update ''quizScores'' (JObj ?sc) kvs"
  let ?ls = "saveProgress cd (JObj ?kvs) ls"
  have one: "saveQuizScore cd c s ch result ls = Inr ?ls"
    using cur qs by (rule saveQuizScore_writes)
  have cur': "current_progress cd ?ls = Inr (JObj ?kvs)"
    using rt1 by (rule current_progress_saved)
  have "completedChapters_of cd ?ls = Some xs"
    using cur' cc by (simp add: completedChapters_of_def update_conv)
  moreover have "quizScores_of cd ?ls = Some ?sc"
    using cur' by (simp add: quizScores_of_def update_conv)
  moreover have "map_of ?sc (chapter_key c s ch) = Some result"
    by (simp add: update_conv)
  moreover have "\<forall>other. other \<noteq> chapter_key c s ch \<longrightarrow> map_of ?sc other = map_of scores other"
    by (simp add: update_conv)
  moreover have "\<forall>name. name \<noteq> STORAGE_KEY \<longrightarrow> ?ls name = ls name"
    by (simp add: saveProgress_other)
  ultimately show "\<exists>ls1 scores1. saveQuizScore cd c s ch result ls = Inr ls1
            \<and> completedChapters_of cd ls1 = Some xs
            \<and> quizScores_of cd ls1 = Some scores1
            \<and> map_of scores1 (chapter_key c s ch) = Some result
            \<and> (\<forall>other. other \<noteq> chapter_key c s ch \<longrightarrow> map_of scores1 other = map_of scores other)
            \<and> (\<forall>name. name \<noteq> STORAGE_KEY \<longrightarrow> ls1 name = ls name)"
    using one by blast
next
  show "\<exists>ls2. markChapterComplete cd c s ch ls = Inr ls2
            \<and> quizScores_of cd ls2 = Some scores
            \<and> (\<forall>name. name \<noteq> STORAGE_KEY \<longrightarrow> ls2 name = ls name)"
  proof (cases "JStr (chapter_key c s ch) \<in> set xs")
    case True
    have "markChapterComplete cd c s ch ls = Inr ls"
      using cur cc True by (rule markChapterComplete_present)
    moreover have "quizScores_of cd ls = Some scores"
      using cur qs by (simp add: quizScores_of_def)
    ultimately show ?thesis by blast
  next
    case False
    let ?kvs = "AList.update ''completedChapters'' (JArr (xs @ [JStr (chapter_key c s ch)])) kvs"
    let ?ls = "saveProgress cd (JObj ?kvs) ls"
    have one: "markChapterComplete cd c s ch ls = Inr ?ls"
      using cur cc False by (rule markChapterComplete_absent)
    have cur': "current_progress cd ?ls = Inr (JObj ?kvs)"
      using rt2 False by (simp add: current_progress_saved)
    have "quizScores_of cd ?ls = Some scores"
      using cur' qs by (simp add: quizScores_of_def update_conv)
    moreover have "\<forall>name. name \<noteq> STORAGE_KEY \<longrightarrow> ?ls name = ls name"
      by (simp add: saveProgress_other)
    ultimately show ?thesis using one by blast
  qed
qed

text \<open>
  A run on a record with one completed chapter and one score: a score saved for another
  chapter leaves both, and marking that chapter complete leaves the scores.
\<close>

theorem progress_mutators_frame_witness:
  "(\<exists>ls1 scores1.
      saveQuizScore
        (known_JSON
           [JObj [(''completedChapters'', JArr [JStr ''12-eco-ch2'']),
                  (''quizScores'', JObj [(''12-eco-ch2'', QuizResult 4 5 ''2024-01-01'')])],
            JObj [(''completedChapters'', JArr [JStr ''12-eco-ch2'']),
                  (''quizScores'', JObj [(''12-eco-ch2'', QuizResult 4 5 ''2024-01-01''),
                                          (''12-accounts-ch1'', QuizResult 3 5 ''2024-01-02'')])],
            JObj [(''completedChapters'', JArr [JStr ''12-eco-ch2'', JStr ''12-accounts-ch1'']),
                  (''quizScores'', JObj [(''12-eco-ch2'', QuizResult 4 5 ''2024-01-01'')])]])
        12 ''accounts'' ''ch1'' (QuizResult 3 5 ''2024-01-02'')
        [STORAGE_KEY \<mapsto>
           json_text (JObj [(''completedChapters'', JArr [JStr ''12-eco-ch2'']),
                            (''quizScores'', JObj [(''12-eco-ch2'', QuizResult 4 5 ''2024-01-01'')])])]
        = Inr ls1
      \<and> completedChapters_of
          (known_JSON
             [JObj [(''completedChapters'', JArr [JStr ''12-eco-ch2'']),
                    (''quizScores'', JObj [(''12-eco-ch2'', QuizResult 4 5 ''2024-01-01'')])],
              JObj [(''completedChapters'', JArr [JStr ''12-eco-ch2'']),
                    (''quizScores'', JObj [(''12-eco-ch2'', QuizResult 4 5 ''2024-01-01''),
                                            (''12-accounts-ch1'', QuizResult 3 5 ''2024-01-02'')])],
              JObj [(''completedChapters'', JArr [JStr ''12-eco-ch2'', JStr ''12-accounts-ch1'']),
                    (''quizScores'', JObj [(''12-eco-ch2'', QuizResult 4 5 ''2024-01-01'')])]])
          ls1 = Some [JStr ''12-eco-ch2'']
      \<and> quizScores_of
          (known_JSON
             [JObj [(''completedChapters'', JArr [JStr ''12-eco-ch2'']),
                    (''quizScores'', JObj [(''12-eco-ch2'', QuizResult 4 5 ''2024-01-01'')])],
              JObj [(''completedChapters'', JArr [JStr ''12-eco-ch2'']),
                    (''quizScores'', JObj [(''12-eco-ch2'', QuizResult 4 5 ''2024-01-01''),
                                            (''12-accounts-ch1'', QuizResult 3 5 ''2024-01-02'')])],
              JObj [(''completedChapters'', JArr [JStr ''12-eco-ch2'', JStr ''12-accounts-ch1'']),
                    (''quizScores'', JObj [(''12-eco-ch2'', QuizResult 4 5 ''2024-01-01'')])]])
          ls1 = Some scores1
      \<and> map_of scores1 ''12-accounts-ch1'' = Some (QuizResult 3 5 ''2024-01-02'')
      \<and> map_of scores1 ''12-eco-ch2'' = Some (QuizResult 4 5 ''2024-01-01''))
   \<and> (\<exists>ls2.
        markChapterComplete
          (known_JSON
             [JObj [(''completedChapters'', JArr [JStr ''12-eco-ch2'']),
                    (''quizScores'', JObj [(''12-eco-ch2'', QuizResult 4 5 ''2024-01-01'')])],
              JObj [(''completedChapters'', JArr [JStr ''12-eco-ch2'']),
                    (''quizScores'', JObj [(''12-eco-ch2'', QuizResult 4 5 ''2024-01-01''),
                                            (''12-accounts-ch1'', QuizResult 3 5 ''2024-01-02'')])],
              JObj [(''completedChapters'', JArr [JStr ''12-eco-ch2'', JStr ''12-accounts-ch1'']),
                    (''quizScores'', JObj [(''12-eco-ch2'', QuizResult 4 5 ''2024-01-01'')])]])
          12 ''accounts'' ''ch1''
          [STORAGE_KEY \<mapsto>
             json_text (JObj [(''completedChapters'', JArr [JStr ''12-eco-ch2'']),
                              (''quizScores'', JObj [(''12-eco-ch2'', QuizResult 4 5 ''2024-01-01'')])])]
          = Inr ls2
        \<and> quizScores_of
            (known_JSON
               [JObj [(''completedChapters'', JArr [JStr ''12-eco-ch2'']),
                      (''quizScores'', JObj [(''12-eco-ch2'', QuizResult 4 5 ''2024-01-01'')])],
                JObj [(''completedChapters'', JArr [JStr ''12-eco-ch2'']),
                      (''quizScores'', JObj [(''12-eco-ch2'', QuizResult 4 5 ''2024-01-01''),
                                              (''12-accounts-ch1'', QuizResult 3 5 ''2024-01-02'')])],
                JObj [(''completedChapters'', JArr [JStr ''12-eco-ch2'', JStr ''12-accounts-ch1'']),
                      (''quizScores'', JObj [(''12-eco-ch2'', QuizResult 4 5 ''2024-01-01'')])]])
            ls2 = Some [(''12-eco-ch2'', QuizResult 4 5 ''2024-01-01'')])"
proof -
  let ?p0 = "[(''completedChapters'', JArr [JStr ''12-eco-ch2'']),
              (''quizScores'', JObj [(''12-eco-ch2'', QuizResult 4 5 ''2024-01-01'')])]"
  let ?cd = "known_JSON
           [JObj ?p0,
            JObj [(''completedChapters'', JArr [JStr ''12-eco-ch2'']),
                  (''quizScores'', JObj [(''12-eco-ch2'', QuizResult 4 5 ''2024-01-01''),
                                          (''12-accounts-ch1'', QuizResult 3 5 ''2024-01-02'')])],
            JObj [(''completedChapters'', JArr [JStr ''12-eco-ch2'', JStr ''12-accounts-ch1'']),
                  (''quizScores'', JObj [(''12-eco-ch2'', QuizResult 4 5 ''2024-01-01'')])]]"
  let ?ls = "[STORAGE_KEY \<mapsto> json_text (JObj ?p0)]"
  have cur: "current_progress ?cd ?ls = Inr (JObj ?p0)"
    by (simp add: current_progress_def loadProgress_def known_JSON_def QuizResult_def)
  have cc: "map_of ?p0 ''completedChapters'' = Some (JArr [JStr ''12-eco-ch2''])"
    by simp
  have qs: "map_of ?p0 ''quizScores'' = Some (JObj [(''12-eco-ch2'', QuizResult 4 5 ''2024-01-01'')])"
    by simp
  have rt1: "roundtrips ?cd (JObj (AList.update ''quizScores''
               (JObj (AList.update (chapter_key 12 ''accounts'' ''ch1'') (QuizResult 3 5 ''2024-01-02'')
                        [(''12-eco-ch2'', QuizResult 4 5 ''2024-01-01'')])) ?p0))"
    by (simp add: roundtrips_def known_JSON_def chapter_key_example QuizResult_def
        string_of_int_def string_of_nat.simps digit_char_def)
  have rt2: "JStr (chapter_key 12 ''accounts'' ''ch1'') \<notin> set [JStr ''12-eco-ch2''] \<longrightarrow>
             roundtrips ?cd (JObj (AList.update ''completedChapters''
               (JArr ([JStr ''12-eco-ch2''] @ [JStr (chapter_key 12 ''accounts'' ''ch1'')])) ?p0))"
    by (simp add: roundtrips_def known_JSON_def chapter_key_example QuizResult_def
        string_of_int_def string_of_nat.simps digit_char_def)
  show ?thesis
    using progress_mutators_frame [OF cur cc qs rt1 rt2]
    by (fastforce simp add: chapter_key_example)
qed


section \<open>Learning a chapter\<close>

text \<open>
  Claim C7: on a cold start (no syllabus in the cache), for every topic list \<open>L\<close> that
  \<open>getChapterSyllabus\<close> returns, \<open>initializeChapter\<close> sets the topics to
  \<open>Introduction\<close> followed by \<open>L\<close> without its entries that equal \<open>introduction\<close>
  up to case; so no later topic is an introduction again.
\<close>

theorem cold_start_topics:
  assumes miss: "cached_syllabus
                   (getCachedContent cd (syllabus_key c (subject_id sub) (chapter_id ch)) ls)
                 = Inr None"
      and L: "getChapterSyllabus cd ai c (subject_name sub) (chapter_title ch) = JArr (map JStr L)"
  shows "\<exists>st' ls'. initializeChapter cd ai c (Some sub) (Some ch) st ls = Inr (st', ls')
           \<and> topics st' = ''Introduction'' # filter (\<lambda>t. toLowerCase t \<noteq> ''introduction'') L
           \<and> (\<forall>t \<in> set (tl (topics st')). toLowerCase t \<noteq> ''introduction'')
           \<and> \<not> loadingSyllabus st'"
  using miss L by (simp add: initializeChapter_def Let_def strings_of_map_JStr)

text \<open>
  The two lists of the specification: the provider returns
  \<open>["Introduction","Basics","Advanced"]\<close>, or \<open>["Basics","Advanced"]\<close>; the topics are
  \<open>Introduction\<close>, \<open>Basics\<close>, \<open>Advanced\<close> both times.
\<close>

theorem cold_start_topics_witness:
  "(\<exists>st' ls'.
      initializeChapter
        (known_JSON [JObj [], JArr [JStr ''Introduction'', JStr ''Basics'', JStr ''Advanced''],
                    JObj [(''syllabus_12_accounts_ch1'',
                           JArr [JStr ''Introduction'', JStr ''Basics'', JStr ''Advanced''])]])
        (\<lambda>req. Fulfilled \<lparr>response_text = Some ''[\"Introduction\",\"Basics\",\"Advanced\"]'',
                            groundingChunks = None\<rparr>)
        12 (Some \<lparr>subject_id = ''accounts'', subject_name = ''Accountancy''\<rparr>)
        (Some \<lparr>chapter_id = ''ch1'', chapter_title = ''Partnership''\<rparr>)
        ChapterLearn_initial Map.empty = Inr (st', ls')
      \<and> topics st' = [''Introduction'', ''Basics'', ''Advanced''])
   \<and> (\<exists>st' ls'.
        initializeChapter
          (known_JSON [JObj [], JArr [JStr ''Basics'', JStr ''Advanced''],
                      JObj [(''syllabus_12_accounts_ch1'',
                             JArr [JStr ''Introduction'', JStr ''Basics'', JStr ''Advanced''])]])
          (\<lambda>req. Fulfilled \<lparr>response_text = Some ''[\"Basics\",\"Advanced\"]'',
                              groundingChunks = None\<rparr>)
          12 (Some \<lparr>subject_id = ''accounts'', subject_name = ''Accountancy''\<rparr>)
          (Some \<lparr>chapter_id = ''ch1'', chapter_title = ''Partnership''\<rparr>)
          ChapterLearn_initial Map.empty = Inr (st', ls')
        \<and> topics st' = [''Introduction'', ''Basics'', ''Advanced''])"
proof -
  let ?sub = "\<lparr>subject_id = ''accounts'', subject_name = ''Accountancy''\<rparr>"
  let ?ch = "\<lparr>chapter_id = ''ch1'', chapter_title = ''Partnership''\<rparr>"
  let ?cd1 = "known_JSON [JObj [], JArr [JStr ''Introduction'', JStr ''Basics'', JStr ''Advanced''],
                    JObj [(''syllabus_12_accounts_ch1'',
                           JArr [JStr ''Introduction'', JStr ''Basics'', JStr ''Advanced''])]]"
  let ?ai1 = "\<lambda>req::request. Fulfilled \<lparr>response_text = Some ''[\"Introduction\",\"Basics\",\"Advanced\"]'',
                            groundingChunks = None\<rparr>"
  let ?cd2 = "known_JSON [JObj [], JArr [JStr ''Basics'', JStr ''Advanced''],
                      JObj [(''syllabus_12_accounts_ch1'',
                             JArr [JStr ''Introduction'', JStr ''Basics'', JStr ''Advanced''])]]"
  let ?ai2 = "\<lambda>req::request. Fulfilled \<lparr>response_text = Some ''[\"Basics\",\"Advanced\"]'',
                            groundingChunks = None\<rparr>"
  have miss1: "cached_syllabus
                 (getCachedContent ?cd1 (syllabus_key 12 (subject_id ?sub) (chapter_id ?ch)) Map.empty)
               = Inr None"
    by (simp add: getCachedContent_def getItem_or_def known_JSON_def)
  have L1: "getChapterSyllabus ?cd1 ?ai1 12 (subject_name ?sub) (chapter_title ?ch)
              = JArr (map JStr [''Introduction'', ''Basics'', ''Advanced''])"
    by (simp add: getChapterSyllabus_def known_JSON_def)
  have miss2: "cached_syllabus
                 (getCachedContent ?cd2 (syllabus_key 12 (subject_id ?sub) (chapter_id ?ch)) Map.empty)
               = Inr None"
    by (simp add: getCachedContent_def getItem_or_def known_JSON_def)
  have L2: "getChapterSyllabus ?cd2 ?ai2 12 (subject_name ?sub) (chapter_title ?ch)
              = JArr (map JStr [''Basics'', ''Advanced''])"
    by (simp add: getChapterSyllabus_def known_JSON_def)
  obtain st1 ls1 where
    r1: "initializeChapter ?cd1 ?ai1 12 (Some ?sub) (Some ?ch) ChapterLearn_initial Map.empty
           = Inr (st1, ls1)"
    and t1: "topics st1 = ''Introduction'' #
               filter (\<lambda>t. toLowerCase t \<noteq> ''introduction'') [''Introduction'', ''Basics'', ''Advanced'']"
    using cold_start_topics [OF miss1 L1, of ChapterLearn_initial] by blast
  obtain st2 ls2 where
    r2: "initializeChapter ?cd2 ?ai2 12 (Some ?sub) (Some ?ch) ChapterLearn_initial Map.empty
           = Inr (st2, ls2)"
    and t2: "topics st2 = ''Introduction'' #
               filter (\<lambda>t. toLowerCase t \<noteq> ''introduction'') [''Basics'', ''Advanced'']"
    using cold_start_topics [OF miss2 L2, of ChapterLearn_initial] by blast
  have "topics st1 = [''Introduction'', ''Basics'', ''Advanced'']"
    using t1 by (simp add: toLowerCase_def lower_char_def)
  moreover have "topics st2 = [''Introduction'', ''Basics'', ''Advanced'']"
    using t2 by (simp add: toLowerCase_def lower_char_def)
  ultimately show ?thesis using r1 r2 by blast
qed

text \<open>
  Claim C9 (as amended): with something to scroll (\<open>h - c > 0\<close>) the scroll handler
  sets the read progress to \<open>(p / (h - c)) * 100\<close>, with no clamp; this is the clamped
  value whenever \<open>0 \<le> p \<le> h - c\<close>. With nothing to scroll it sets 100; so \<open>p = 0\<close>
  with \<open>h = c\<close> gives 100.
\<close>

theorem handleScroll_progress:
  "readProgress (handleScroll p h c st) = (if h - c > 0 then (p / (h - c)) * 100 else 100)
   \<and> (h - c > 0 \<and> 0 \<le> p \<and> p \<le> h - c \<longrightarrow>
        readProgress (handleScroll p h c st) = max 0 (min 100 ((p / (h - c)) * 100)))
   \<and> readProgress (handleScroll 0 h h st) = 100"
  by (auto simp add: handleScroll_def max_def min_def field_simps)

theorem handleScroll_progress_witness:
  "readProgress (handleScroll 125 650 150 ChapterLearn_initial) = 25
   \<and> readProgress (handleScroll 125 650 150 ChapterLearn_initial)
       = max 0 (min 100 ((125 / (650 - 150)) * 100))
   \<and> readProgress (handleScroll 0 600 600 ChapterLearn_initial) = 100"
  using handleScroll_progress [of 125 650 150 ChapterLearn_initial]
        handleScroll_progress [of 0 600 600 ChapterLearn_initial]
  by simp

text \<open>
  The claim as stated (the value is clamped to the range from 0 to 100, for every
  \<open>p \<ge> 0\<close>) fails at \<open>p = 200\<close>, \<open>h = 150\<close>, \<open>c = 50\<close>: the handler sets 200.
\<close>

theorem handleScroll_unclamped_counterexample:
  "readProgress (handleScroll 200 150 50 ChapterLearn_initial) = 200
   \<and> max 0 (min 100 ((200 / (150 - 50)) * 100 :: real)) = 100"
  by (simp add: handleScroll_def)


section \<open>The quiz\<close>

lemma answerAll_correct:
  assumes "length qs - k = m" and "k < length qs"
      and "questions st = qs" and "currentQuestionIndex st = int k" and "\<not> isAnswered st"
      and cur: "current_progress cd ls = Inr (JObj kvs)"
      and qsc: "map_of kvs ''quizScores'' = Some (JObj scores)"
  shows "\<exists>st'. answerAll cd now c (Some sub) (Some ch) (map correctAnswer (drop k qs)) st ls =
           Inr (st',
                saveProgress cd
                  (JObj (AList.update ''quizScores''
                           (JObj (AList.update (chapter_key c (subject_id sub) (chapter_id ch))
                                    (QuizResult (score st + int (length qs - k) + 1)
                                       (int (length qs)) now)
                                    scores)) kvs)) ls)
           \<and> score st' = score st + int (length qs - k) \<and> showResults st'"
  using assms
proof (induction m arbitrary: k st)
  case 0
  then show ?case by simp
next
  case (Suc m)
  let ?q = "qs ! k"
  have dropk: "drop k qs = ?q # drop (Suc k) qs"
    using Suc.prems(2) by (simp add: Cons_nth_drop_Suc)
  have at: "at_index qs (int k) = Some ?q"
    using Suc.prems(2) by (simp add: at_index_def)
  let ?st1 = "st\<lparr>selectedOption := Some (correctAnswer ?q)\<rparr>"
  let ?st2 = "?st1\<lparr>isAnswered := True, score := score st + 1\<rparr>"
  have sel: "handleOptionSelect (correctAnswer ?q) st = ?st1"
    using Suc.prems(5) by (simp add: handleOptionSelect_def)
  have sub: "handleSubmitAnswer ?st1 = Inr ?st2"
    using Suc.prems(3,4) at by (simp add: handleSubmitAnswer_def)
  show ?case
  proof (cases "Suc k < length qs")
    case True
    let ?st3 = "?st2\<lparr>currentQuestionIndex := int k + 1, selectedOption := None,
                     isAnswered := False\<rparr>"
    have nxt: "handleNextQuestion cd now c (Some sub) (Some ch) ?st2 ls = Inr (?st3, ls)"
      using True Suc.prems(3,4) by (simp add: handleNextQuestion_def)
    have one: "answerQuestion cd now c (Some sub) (Some ch) (correctAnswer ?q) st ls
                 = Inr (?st3, ls)"
      by (simp add: answerQuestion_def sel sub nxt)
    have IH: "\<exists>st'. answerAll cd now c (Some sub) (Some ch)
                      (map correctAnswer (drop (Suc k) qs)) ?st3 ls =
           Inr (st',
                saveProgress cd
                  (JObj (AList.update ''quizScores''
                           (JObj (AList.update (chapter_key c (subject_id sub) (chapter_id ch))
                                    (QuizResult (score ?st3 + int (length qs - Suc k) + 1)
                                       (int (length qs)) now)
                                    scores)) kvs)) ls)
           \<and> score st' = score ?st3 + int (length qs - Suc k) \<and> showResults st'"
      using Suc.prems True by (intro Suc.IH) auto
    have arith: "score ?st3 + int (length qs - Suc k) = score st + int (length qs - k)"
      using True by simp
    show ?thesis
      using IH unfolding arith
      by (simp add: dropk one)
  next
    case False
    then have k: "Suc k = length qs" using Suc.prems(2) by simp
    have lastq: "\<not> currentQuestionIndex ?st2 < int (length (questions ?st2)) - 1"
      using k Suc.prems(3,4) by simp
    have at2: "at_index (questions ?st2) (currentQuestionIndex ?st2) = Some ?q"
      using at Suc.prems(3,4) by simp
    have nxt: "handleNextQuestion cd now c (Some sub) (Some ch) ?st2 ls =
           Inr (?st2\<lparr>showResults := True\<rparr>,
                saveProgress cd
                  (JObj (AList.update ''quizScores''
                           (JObj (AList.update (chapter_key c (subject_id sub) (chapter_id ch))
                                    (QuizResult
                                       (score ?st2 +
                                          (if selectedOption ?st2 = Some (correctAnswer ?q)
                                           then 1 else 0))
                                       (int (length (questions ?st2))) now)
                                    scores)) kvs)) ls)"
      using lastq at2 cur qsc by (rule handleNextQuestion_last)
    have len: "int (length qs - k) = 1" using k by simp
    show ?thesis
      using nxt Suc.prems(3) k
      by (simp add: dropk answerQuestion_def sel sub len)
  qed
qed

text \<open>
  Claim C1: at the last question of an answered quiz, \<open>handleNextQuestion\<close> shows the
  results and commits, through \<open>saveQuizScore\<close>, a \<open>QuizResult\<close> whose total is the
  number of questions and whose score is the running score.

  The total and the transition are as claimed. The score is not: the handler commits
  the running score plus one more point when the selected option of the last question is
  the correct one, although \<open>handleSubmitAnswer\<close> has counted that answer already.
\<close>

theorem final_advance_commits:
  assumes last: "\<not> currentQuestionIndex st < int (length (questions st)) - 1"
      and q: "at_index (questions st) (currentQuestionIndex st) = Some q"
      and cur: "current_progress cd ls = Inr (JObj kvs)"
      and qs: "map_of kvs ''quizScores'' = Some (JObj scores)"
      and rt: "roundtrips cd
                 (JObj (AList.update ''quizScores''
                          (JObj (AList.update (chapter_key c (subject_id sub) (chapter_id ch))
                                   (QuizResult
                                      (score st +
                                         (if selectedOption st = Some (correctAnswer q) then 1 else 0))
                                      (int (length (questions st))) now)
                                   scores)) kvs))"
  shows "\<exists>st' ls' scores'.
           handleNextQuestion cd now c (Some sub) (Some ch) st ls = Inr (st', ls')
           \<and> showResults st' \<and> score st' = score st
           \<and> quizScores_of cd ls' = Some scores'
           \<and> map_of scores' (chapter_key c (subject_id sub) (chapter_id ch)) =
               Some (QuizResult
                       (score st + (if selectedOption st = Some (correctAnswer q) then 1 else 0))
                       (int (length (questions st))) now)"
proof -
  let ?r = "QuizResult (score st + (if selectedOption st = Some (correctAnswer q) then 1 else 0))
              (int (length (questions st))) now"
  let ?sc = "AList.update (chapter_key c (subject_id sub) (chapter_id ch)) ?r scores"
  let ?kvs = "AList.update ''quizScores'' (JObj ?sc) kvs"
  let ?ls = "saveProgress cd (JObj ?kvs) ls"
  have step: "handleNextQuestion cd now c (Some sub) (Some ch) st ls
                = Inr (st\<lparr>showResults := True\<rparr>, ?ls)"
    using last q cur qs by (rule handleNextQuestion_last)
  have "current_progress cd ?ls = Inr (JObj ?kvs)"
    using rt by (rule current_progress_saved)
  then have "quizScores_of cd ?ls = Some ?sc"
    by (simp add: quizScores_of_def update_conv)
  moreover have "map_of ?sc (chapter_key c (subject_id sub) (chapter_id ch)) = Some ?r"
    by (simp add: update_conv)
  ultimately show ?thesis using step by simp
qed

text \<open>
  A quiz of one question whose correct option is 0, on a fresh storage: the learner
  selects 0 and submits, the running score is 1; the advance commits the score 2 of 1.
\<close>

theorem final_advance_commits_witness:
  "\<exists>st1 st' ls' scores'.
     handleSubmitAnswer
       (handleOptionSelect 0
          (Quiz_initial\<lparr>questions := [\<lparr>question = ''Q'', options = [''a'', ''b'', ''c'', ''d''],
                                          correctAnswer = 0, explanation = ''E''\<rparr>],
                         loading := False\<rparr>)) = Inr st1
     \<and> score st1 = 1
     \<and> handleNextQuestion
         (known_JSON [JObj [(''completedChapters'', JArr []),
                            (''quizScores'',
                             JObj [(''12-accounts-ch1'', QuizResult 2 1 ''2024-01-02'')])]])
         ''2024-01-02'' 12
         (Some \<lparr>subject_id = ''accounts'', subject_name = ''Accountancy''\<rparr>)
         (Some \<lparr>chapter_id = ''ch1'', chapter_title = ''Partnership''\<rparr>)
         st1 Map.empty = Inr (st', ls')
     \<and> showResults st'
     \<and> quizScores_of
         (known_JSON [JObj [(''completedChapters'', JArr []),
                            (''quizScores'',
                             JObj [(''12-accounts-ch1'', QuizResult 2 1 ''2024-01-02'')])]])
         ls' = Some scores'
     \<and> map_of scores' ''12-accounts-ch1'' = Some (QuizResult 2 1 ''2024-01-02'')"
proof -
  let ?q = "\<lparr>question = ''Q'', options = [''a'', ''b'', ''c'', ''d''],
             correctAnswer = 0, explanation = ''E''\<rparr>"
  let ?st1 = "\<lparr>questions = [?q], loading = False, currentQuestionIndex = 0,
               selectedOption = Some 0, isAnswered = True, score = 1, showResults = False\<rparr>"
  let ?cd = "known_JSON [JObj [(''completedChapters'', JArr []),
                               (''quizScores'',
                                JObj [(''12-accounts-ch1'', QuizResult 2 1 ''2024-01-02'')])]]"
  let ?sub = "\<lparr>subject_id = ''accounts'', subject_name = ''Accountancy''\<rparr>"
  let ?ch = "\<lparr>chapter_id = ''ch1'', chapter_title = ''Partnership''\<rparr>"
  have s1: "handleSubmitAnswer
              (handleOptionSelect 0 (Quiz_initial\<lparr>questions := [?q], loading := False\<rparr>))
            = Inr ?st1"
    by (simp add: handleSubmitAnswer_def handleOptionSelect_def Quiz_initial_def at_index_def)
  have last: "\<not> currentQuestionIndex ?st1 < int (length (questions ?st1)) - 1"
    by simp
  have q: "at_index (questions ?st1) (currentQuestionIndex ?st1) = Some ?q"
    by (simp add: at_index_def)
  have cur: "current_progress ?cd Map.empty
               = Inr (JObj [(''completedChapters'', JArr []), (''quizScores'', JObj [])])"
    by (simp add: current_progress_fresh empty_progress_def)
  have qs: "map_of [(''completedChapters'', JArr []), (''quizScores'', JObj [])] ''quizScores''
              = Some (JObj [])"
    by simp
  have rt: "roundtrips ?cd
                 (JObj (AList.update ''quizScores''
                          (JObj (AList.update (chapter_key 12 (subject_id ?sub) (chapter_id ?ch))
                                   (QuizResult
                                      (score ?st1 +
                                         (if selectedOption ?st1 = Some (correctAnswer ?q) then 1 else 0))
                                      (int (length (questions ?st1))) ''2024-01-02'')
                                   [])) [(''completedChapters'', JArr []), (''quizScores'', JObj [])]))"
    by (simp add: roundtrips_def known_JSON_def chapter_key_example QuizResult_def
        string_of_int_def string_of_nat.simps digit_char_def)
  obtain st' ls' scores' where
    "handleNextQuestion ?cd ''2024-01-02'' 12 (Some ?sub) (Some ?ch) ?st1 Map.empty
       = Inr (st', ls')"
    and "showResults st'"
    and "quizScores_of ?cd ls' = Some scores'"
    and "map_of scores' ''12-accounts-ch1'' = Some (QuizResult 2 1 ''2024-01-02'')"
    using final_advance_commits [OF last q cur qs rt]
    by (auto simp add: chapter_key_example)
  with s1 show ?thesis
    by (intro exI [of _ ?st1] exI [of _ st'] exI [of _ ls'] exI [of _ scores']) simp
qed

text \<open>
  Claim C2: every \<open>QuizResult\<close> written into \<open>quizScores\<close> has a score of at most its
  total; a quiz of \<open>n\<close> questions, each answered and submitted once, commits a score of
  at most \<open>n\<close>.

  It does not hold of the code: when every one of the \<open>n > 0\<close> questions is answered
  correctly, the running score ends at \<open>n\<close> and the record written holds the score
  \<open>n + 1\<close> with the total \<open>n\<close>.
\<close>

theorem all_correct_commits_more_than_total:
  assumes "qs \<noteq> []"
      and cur: "current_progress cd ls = Inr (JObj kvs)"
      and qsc: "map_of kvs ''quizScores'' = Some (JObj scores)"
  shows "\<exists>st'. answerAll cd now c (Some sub) (Some ch) (map correctAnswer qs)
                 (Quiz_initial\<lparr>questions := qs, loading := False\<rparr>) ls =
           Inr (st',
                saveProgress cd
                  (JObj (AList.update ''quizScores''
                           (JObj (AList.update (chapter_key c (subject_id sub) (chapter_id ch))
                                    (QuizResult (int (length qs) + 1) (int (length qs)) now)
                                    scores)) kvs)) ls)
           \<and> score st' = int (length qs) \<and> showResults st'"
  using answerAll_correct
          [of qs 0 "length qs" "Quiz_initial\<lparr>questions := qs, loading := False\<rparr>"
              cd ls kvs scores now c sub ch] assms
  by (simp add: Quiz_initial_def)

text \<open>
  The scenario of the specification: five questions, each answered correctly, on a fresh
  storage. The running score reaches 5; the record written is 6 of 5.
\<close>

theorem all_correct_commits_more_than_total_witness:
  "\<exists>st'. answerAll (known_JSON []) ''2024-01-02'' 12
            (Some \<lparr>subject_id = ''accounts'', subject_name = ''Accountancy''\<rparr>)
            (Some \<lparr>chapter_id = ''ch1'', chapter_title = ''Partnership''\<rparr>)
            [0, 1, 2, 3, 0]
            (Quiz_initial
               \<lparr>questions :=
                  map (\<lambda>a. \<lparr>question = ''Q'', options = [''a'', ''b'', ''c'', ''d''],
                            correctAnswer = a, explanation = ''E''\<rparr>) [0, 1, 2, 3, 0],
                loading := False\<rparr>)
            Map.empty
          = Inr (st',
                 saveProgress (known_JSON [])
                   (JObj [(''completedChapters'', JArr []),
                          (''quizScores'',
                           JObj [(''12-accounts-ch1'', QuizResult 6 5 ''2024-01-02'')])])
                   Map.empty)
        \<and> score st' = 5 \<and> showResults st'"
  using all_correct_commits_more_than_total
          [of "map (\<lambda>a. \<lparr>question = ''Q'', options = [''a'', ''b'', ''c'', ''d''],
                            correctAnswer = a, explanation = ''E''\<rparr>) [0, 1, 2, 3, 0]"
              "known_JSON []" Map.empty
              "[(''completedChapters'', JArr []), (''quizScores'', JObj [])]" "[]"
              "''2024-01-02''" 12
              "\<lparr>subject_id = ''accounts'', subject_name = ''Accountancy''\<rparr>"
              "\<lparr>chapter_id = ''ch1'', chapter_title = ''Partnership''\<rparr>"]
  by (simp add: current_progress_fresh empty_progress_def chapter_key_example)


section \<open>Provider failure\<close>

text \<open>
  Claim C4: when the provider call fails, the fetch of every kind of artifact returns its
  fixed fallback, and the fallback is not written into the content cache.

  With a provider that rejects every call and nothing cached: the quiz and the glossary
  get the empty list and leave the storage as it was, as claimed. The explanation does
  not: \<open>generateTopicExplanation\<close> turns the failure into the error text, and the content
  effect caches that text under the key of the topic, where later visits read it back.
  Likewise \<open>initializeChapter\<close> caches the fallback syllabus and the error text of the
  first topic.
\<close>

theorem provider_failure_fallbacks:
  assumes fail: "\<forall>req. ai req = Rejected"
      and quiz_miss:
        "getCachedContent cd (quiz_key c (subject_id sub) (chapter_id ch)) ls = JNull"
      and glossary_miss: "getCachedContent cd (glossary_key c subId) ls = JNull"
      and syllabus_miss:
        "getCachedContent cd (syllabus_key c (subject_id sub) (chapter_id ch)) ls = JNull"
      and content_miss:
        "getCachedContent cd
           (content_key c (subject_id sub) (chapter_id ch) (currentTopicIndex st)) ls = JNull"
      and topics: "topics st \<noteq> []"
      and cache: "JSON_parse cd (getItem_or ls CONTENT_CACHE_KEY ''{}'') = Some (JObj kvs)"
      and size:
        "length (JSON_stringify cd
           (JObj (AList.update
                    (content_key c (subject_id sub) (chapter_id ch) (currentTopicIndex st))
                    (ExplanationResult_json explanation_error) kvs))) \<le> 4500000"
      and rt:
        "roundtrips cd
           (JObj (AList.update
                    (content_key c (subject_id sub) (chapter_id ch) (currentTopicIndex st))
                    (ExplanationResult_json explanation_error) kvs))"
  shows "(\<exists>qst'. loadQuiz cd ai c (Some sub) (Some ch) qst ls = Inr (qst', ls)
            \<and> questions qst' = [] \<and> \<not> loading qst')
       \<and> (\<exists>gst'. fetchTerms cd ai SUBJECTS c subId gst ls = Inr (gst', ls) \<and> terms gst' = [])
       \<and> (\<exists>st' ls'. contentEffect cd ai c (Some sub) (Some ch) st ls = Inr (st', ls')
            \<and> content st' = content explanation_error \<and> sources st' = []
            \<and> getCachedContent cd
                 (content_key c (subject_id sub) (chapter_id ch) (currentTopicIndex st)) ls'
               = ExplanationResult_json explanation_error)
       \<and> (\<exists>st'. initializeChapter cd ai c (Some sub) (Some ch) st ls =
              Inr (st',
                   saveCachedContent cd (content_key c (subject_id sub) (chapter_id ch) 0)
                     (ExplanationResult_json explanation_error)
                     (saveCachedContent cd (syllabus_key c (subject_id sub) (chapter_id ch))
                        (JArr [JStr ''Introduction'', JStr ''Overview'', JStr ''Main Concepts'',
                               JStr ''Conclusion''])
                        ls))
            \<and> topics st' = [''Introduction'', ''Overview'', ''Main Concepts'', ''Conclusion''])"
proof (intro conjI)
  show "\<exists>qst'. loadQuiz cd ai c (Some sub) (Some ch) qst ls = Inr (qst', ls)
            \<and> questions qst' = [] \<and> \<not> loading qst'"
    using fail quiz_miss by (simp add: loadQuiz_def Let_def generateChapterQuiz_def)
  show "\<exists>gst'. fetchTerms cd ai SUBJECTS c subId gst ls = Inr (gst', ls) \<and> terms gst' = []"
    using fail glossary_miss by (simp add: fetchTerms_def Let_def generateSubjectGlossary_def)
  have gen: "generateTopicExplanation ai c (subject_name sub) (chapter_title ch) t
               = explanation_error" for t
    using fail by (simp add: generateTopicExplanation_def)
  have "getCachedContent cd
          (content_key c (subject_id sub) (chapter_id ch) (currentTopicIndex st))
          (saveCachedContent cd
             (content_key c (subject_id sub) (chapter_id ch) (currentTopicIndex st))
             (ExplanationResult_json explanation_error) ls)
        = ExplanationResult_json explanation_error"
    using getCachedContent_saved [OF cache size rt] by (simp add: ExplanationResult_json_def)
  then show "\<exists>st' ls'. contentEffect cd ai c (Some sub) (Some ch) st ls = Inr (st', ls')
            \<and> content st' = content explanation_error \<and> sources st' = []
            \<and> getCachedContent cd
                 (content_key c (subject_id sub) (chapter_id ch) (currentTopicIndex st)) ls'
               = ExplanationResult_json explanation_error"
    using topics content_miss
    by (simp add: contentEffect_def Let_def gen explanation_error_def)
  have syl: "getChapterSyllabus cd ai c (subject_name sub) (chapter_title ch)
               = JArr [JStr ''Overview'', JStr ''Main Concepts'', JStr ''Conclusion'']"
    using fail by (simp add: getChapterSyllabus_def)
  show "\<exists>st'. initializeChapter cd ai c (Some sub) (Some ch) st ls =
              Inr (st',
                   saveCachedContent cd (content_key c (subject_id sub) (chapter_id ch) 0)
                     (ExplanationResult_json explanation_error)
                     (saveCachedContent cd (syllabus_key c (subject_id sub) (chapter_id ch))
                        (JArr [JStr ''Introduction'', JStr ''Overview'', JStr ''Main Concepts'',
                               JStr ''Conclusion''])
                        ls))
            \<and> topics st' = [''Introduction'', ''Overview'', ''Main Concepts'', ''Conclusion'']"
    using syllabus_miss
    by (simp add: initializeChapter_def Let_def syl gen toLowerCase_def lower_char_def)
qed

text \<open>
  A run on an empty storage with the topics of a chapter loaded: the provider rejects,
  the quiz leaves the storage empty, and the content effect leaves the error text in the
  cache under \<open>content_12_accounts_ch1_0\<close>.
\<close>

theorem provider_failure_fallbacks_witness:
  "(\<exists>qst'.
      loadQuiz
        (known_JSON [JObj [], JObj [(''content_12_accounts_ch1_0'',
                                     ExplanationResult_json explanation_error)]])
        (\<lambda>req. Rejected) 12
        (Some \<lparr>subject_id = ''accounts'', subject_name = ''Accountancy''\<rparr>)
        (Some \<lparr>chapter_id = ''ch1'', chapter_title = ''Partnership''\<rparr>)
        Quiz_initial Map.empty = Inr (qst', Map.empty)
      \<and> questions qst' = [])
   \<and> (\<exists>st' ls'.
        contentEffect
          (known_JSON [JObj [], JObj [(''content_12_accounts_ch1_0'',
                                       ExplanationResult_json explanation_error)]])
          (\<lambda>req. Rejected) 12
          (Some \<lparr>subject_id = ''accounts'', subject_name = ''Accountancy''\<rparr>)
          (Some \<lparr>chapter_id = ''ch1'', chapter_title = ''Partnership''\<rparr>)
          (ChapterLearn_initial\<lparr>topics := [''Introduction''], loadingSyllabus := False\<rparr>)
          Map.empty = Inr (st', ls')
        \<and> content st' = content explanation_error
        \<and> getCachedContent
            (known_JSON [JObj [], JObj [(''content_12_accounts_ch1_0'',
                                         ExplanationResult_json explanation_error)]])
            ''content_12_accounts_ch1_0'' ls'
          = ExplanationResult_json explanation_error)"
proof -
  let ?cd = "known_JSON [JObj [], JObj [(''content_12_accounts_ch1_0'',
                                         ExplanationResult_json explanation_error)]]"
  let ?ai = "\<lambda>req::request. (Rejected :: GenerateContentResponse awaited)"
  let ?sub = "\<lparr>subject_id = ''accounts'', subject_name = ''Accountancy''\<rparr>"
  let ?ch = "\<lparr>chapter_id = ''ch1'', chapter_title = ''Partnership''\<rparr>"
  let ?st = "ChapterLearn_initial\<lparr>topics := [''Introduction''], loadingSyllabus := False\<rparr>"
  have fail: "\<forall>req. ?ai req = Rejected" by simp
  have empty: "getCachedContent ?cd key Map.empty = JNull" for key
    by (simp add: getCachedContent_def getItem_or_def known_JSON_def)
  have idx: "currentTopicIndex ?st = 0" by (simp add: ChapterLearn_initial_def)
  have topics: "topics ?st \<noteq> []" by simp
  have cache: "JSON_parse ?cd (getItem_or Map.empty CONTENT_CACHE_KEY ''{}'') = Some (JObj [])"
    by (simp add: getItem_or_def known_JSON_def)
  have text_short:
    "length (json_text (JObj [(''content_12_accounts_ch1_0'',
                                ExplanationResult_json explanation_error)])) \<le> 4500000"
    by (simp add: ExplanationResult_json_def explanation_error_def)
  have size:
    "length (JSON_stringify ?cd
       (JObj (AList.update
                (content_key 12 (subject_id ?sub) (chapter_id ?ch) (currentTopicIndex ?st))
                (ExplanationResult_json explanation_error) []))) \<le> 4500000"
    using text_short by (simp add: idx content_key_example known_JSON_def)
  have rt:
    "roundtrips ?cd
       (JObj (AList.update
                (content_key 12 (subject_id ?sub) (chapter_id ?ch) (currentTopicIndex ?st))
                (ExplanationResult_json explanation_error) []))"
    by (simp add: idx content_key_example roundtrips_def known_JSON_def
        ExplanationResult_json_def explanation_error_def)
  show ?thesis
    using provider_failure_fallbacks
            [where ai = ?ai and cd = ?cd and c = 12 and sub = ?sub and ch = ?ch
               and ls = Map.empty and subId = "''accounts''" and st = ?st and kvs = "[]"
               and qst = Quiz_initial and gst = Glossary_initial and SUBJECTS = "[]",
             OF fail empty empty empty empty topics cache size rt]
    by (auto simp add: idx content_key_example)
qed

end
